theory Spec2Isabelle
  imports Main "HOL-Library.Word"
begin

unbundle bit_operations_syntax

section \<open>The key-object registry of ncr-key.c\<close>

text \<open>
  A shallow embedding of \<^verbatim>\<open>src/ncr-key.c\<close>. Every C function becomes a HOL function of the
  same name (a leading underscore is dropped, since an Isabelle name cannot start with one)
  that takes the state it reads and returns the state it leaves, together with its return
  code. A return code is \<open>Inr ()\<close> for \<^verbatim>\<open>return 0\<close> and \<open>Inl e\<close> for \<^verbatim>\<open>return -e\<close>.
\<close>

subsection \<open>Types\<close>

type_synonym u8 = "8 word"

text \<open>Descriptors are C \<^verbatim>\<open>int\<close>s (\<^verbatim>\<open>int mx\<close> in \<^verbatim>\<open>_ncr_key_get_new_desc\<close>): 32 bits, compared
  as signed values (\<open>sint\<close>), and \<open>+\<close> wraps around as the kernel is built
  (\<^verbatim>\<open>-fno-strict-overflow\<close>).\<close>

type_synonym ncr_key_t = "32 word"
type_synonym ncr_data_t = "32 word"

text \<open>\<^verbatim>\<open>struct file *\<close>: the identity of the owning session.\<close>

type_synonym file_ptr = nat

datatype ncr_error = EINVAL | ENOMEM | ResourceExhausted

type_synonym ret = "ncr_error + unit"

text \<open>
  The constants and the catalog function that \<^verbatim>\<open>ncr.h\<close> and \<^verbatim>\<open>ncr_int.h\<close> declare are not
  part of the source at hand. They are parameters of every function that uses them.
\<close>

record ncr_h =
  MAX_KEY_SIZE :: nat
  MAX_KEY_ID_SIZE :: nat
  NCR_KEY_TYPE_SECRET :: int
  NCR_KEY_TYPE_PUBLIC :: int
  NCR_KEY_TYPE_PRIVATE :: int
  NCR_KEY_FLAG_EXPORTABLE :: "32 word"
  NCR_DATA_FLAG_EXPORTABLE :: "32 word"
  NCR_ALG_AES_CBC :: int
  ncr_algorithm_to_key_type :: "int \<Rightarrow> int"

text \<open>\<^verbatim>\<open>struct key_item\<close>. The two byte arrays are kept whole (\<open>secret_data\<close> is
  \<^verbatim>\<open>key.secret.data\<close>, \<open>secret_size\<close> is \<^verbatim>\<open>key.secret.size\<close>); the key material is the
  first \<open>secret_size\<close> bytes of \<open>secret_data\<close>.\<close>

record key_item =
  desc :: ncr_key_t
  filp :: file_ptr
  refcnt :: int
  type :: int
  flags :: "32 word"
  algorithm :: int
  key_id :: "u8 list"
  key_id_size :: nat
  secret_data :: "u8 list"
  secret_size :: nat

definition material :: "key_item \<Rightarrow> u8 list" where
  "material item = take (secret_size item) (secret_data item)"

text \<open>\<^verbatim>\<open>struct data_item\<close>, as far as this file touches it: the buffer \<open>data\<close> of capacity
  \<open>max_data_size\<close>, of which the first \<open>data_size\<close> bytes are in use.\<close>

record data_item =
  d_desc :: ncr_data_t
  d_flags :: "32 word"
  data :: "u8 list"
  data_size :: nat
  max_data_size :: nat

definition bytes :: "data_item \<Rightarrow> u8 list" where
  "bytes ditem = take (data_size ditem) (data ditem)"

text \<open>The per-owner count of live keys (\<^verbatim>\<open>LIMIT_TYPE_KEY\<close>) and its bound.\<close>

record ncr_limits =
  max_keys :: int
  key_cnt :: "file_ptr \<Rightarrow> int"

text \<open>
  The state the functions of this file work on: the key list (\<^verbatim>\<open>lst->list\<close>, head first),
  the data list, the limiter, and the bytes the kernel's random generator delivers next.
\<close>

record ncr_state =
  key_lst :: "key_item list"
  data_lst :: "data_item list"
  limits :: ncr_limits
  random :: "nat \<Rightarrow> u8"

text \<open>The request structures read from user space.\<close>

record ncr_key_generate_st =
  gen_desc :: ncr_key_t
  gen_algorithm :: int
  gen_keyflags :: "32 word"
  gen_bits :: nat

record ncr_key_data_st =
  arg_key :: ncr_key_t
  arg_data :: ncr_data_t
  arg_key_id :: "u8 list"
  arg_key_id_size :: nat
  arg_type :: int
  arg_algorithm :: int
  arg_flags :: "32 word"

record ncr_key_info_st =
  info_key :: ncr_key_t
  info_flags :: "32 word"
  info_type :: int
  info_algorithm :: int

subsection \<open>Collaborators\<close>

text \<open>Modelled from the spec: \<^verbatim>\<open>ncr_limits_add_and_check\<close> (ncr-limits.c is missing). The
  Resource Limiter's \<open>admit(owner, kind)\<close> answers Ok and counts the new key, or answers
  ResourceExhausted when the owner's limit is reached.\<close>

definition ncr_limits_add_and_check :: "ncr_limits \<Rightarrow> file_ptr \<Rightarrow> ncr_error + ncr_limits" where
  "ncr_limits_add_and_check lim f =
     (if max_keys lim \<le> key_cnt lim f then Inl ResourceExhausted
      else Inr (lim\<lparr>key_cnt := (key_cnt lim)(f := key_cnt lim f + 1)\<rparr>))"

text \<open>Modelled from the spec: \<^verbatim>\<open>ncr_limits_remove\<close> (ncr-limits.c is missing). The Resource
  Limiter's \<open>release(owner, kind)\<close> gives the owner's slot back.\<close>

definition ncr_limits_remove :: "ncr_limits \<Rightarrow> file_ptr \<Rightarrow> ncr_limits" where
  "ncr_limits_remove lim f = lim\<lparr>key_cnt := (key_cnt lim)(f := key_cnt lim f - 1)\<rparr>"

text \<open>Modelled from the spec: \<^verbatim>\<open>ncr_data_item_get\<close> (ncr-data.c is missing). The Data Buffer
  Store's \<open>borrow(handle)\<close> finds the buffer with that handle, or nothing. The result is the
  buffer's position in the data list, which stands for the pointer.\<close>

fun ncr_data_item_get :: "data_item list \<Rightarrow> ncr_data_t \<Rightarrow> nat option" where
  "ncr_data_item_get [] d = None"
| "ncr_data_item_get (ditem # rest) d =
     (if d_desc ditem = d then Some 0 else map_option Suc (ncr_data_item_get rest d))"

text \<open>Modelled from the spec: \<^verbatim>\<open>_ncr_data_item_put\<close> (ncr-data.c is missing). The Data Buffer
  Store's \<open>release(handle)\<close> ends the borrow and changes none of the buffer's fields.\<close>

definition ncr_data_item_put :: "data_item \<Rightarrow> data_item" where
  "ncr_data_item_put ditem = ditem"

text \<open>\<^verbatim>\<open>memcpy(dst, src, n)\<close>: the first \<open>n\<close> bytes of \<open>dst\<close> become those of \<open>src\<close>. Both
  arrays hold at least \<open>n\<close> bytes wherever the source calls it after its size checks.\<close>

definition memcpy :: "u8 list \<Rightarrow> u8 list \<Rightarrow> nat \<Rightarrow> u8 list" where
  "memcpy dst src n = take n src @ drop n dst"

text \<open>\<^verbatim>\<open>get_random_bytes(buf, n)\<close>: the first \<open>n\<close> bytes of \<open>buf\<close> become the next \<open>n\<close> bytes
  of the generator, which moves on by \<open>n\<close>.\<close>

definition get_random_bytes :: "u8 list \<Rightarrow> nat \<Rightarrow> (nat \<Rightarrow> u8) \<Rightarrow> u8 list \<times> (nat \<Rightarrow> u8)" where
  "get_random_bytes buf n rnd = (map rnd [0..<n] @ drop n buf, \<lambda>i. rnd (n + i))"

subsection \<open>The key list\<close>

text \<open>The kernel's \<^verbatim>\<open>max(x, y)\<close> on two \<^verbatim>\<open>int\<close>s: \<^verbatim>\<open>x > y ? x : y\<close>.\<close>

definition max_int :: "32 word \<Rightarrow> 32 word \<Rightarrow> 32 word" where
  "max_int x y = (if sint x > sint y then x else y)"

text \<open>The loop of \<^verbatim>\<open>_ncr_key_get_new_desc\<close>, with \<open>mx\<close> as accumulator.\<close>

fun max_desc :: "32 word \<Rightarrow> key_item list \<Rightarrow> 32 word" where
  "max_desc mx [] = mx"
| "max_desc mx (item # rest) = max_desc (max_int mx (desc item)) rest"

definition ncr_key_get_new_desc :: "key_item list \<Rightarrow> ncr_key_t" where
  "ncr_key_get_new_desc lst = max_desc 0 lst + 1"

text \<open>The scan of \<^verbatim>\<open>ncr_key_item_get\<close>: the position of the first item with that descriptor.
  A position in the list stands for the pointer to the item.\<close>

fun key_find :: "key_item list \<Rightarrow> ncr_key_t \<Rightarrow> nat option" where
  "key_find [] d = None"
| "key_find (item # rest) d =
     (if desc item = d then Some 0 else map_option Suc (key_find rest d))"

definition ncr_key_item_get :: "key_item list \<Rightarrow> ncr_key_t \<Rightarrow> (nat \<times> key_item list) option" where
  "ncr_key_item_get lst d =
     (case key_find lst d of
        None \<Rightarrow> None
      | Some i \<Rightarrow> Some (i, lst[i := (lst ! i)\<lparr>refcnt := refcnt (lst ! i) + 1\<rparr>]))"

text \<open>\<^verbatim>\<open>_ncr_key_item_put\<close>: the count goes down by one; at zero the owner's slot is given
  back and the item is freed (\<open>None\<close>).\<close>

definition ncr_key_item_put :: "key_item \<Rightarrow> ncr_limits \<Rightarrow> key_item option \<times> ncr_limits" where
  "ncr_key_item_put item lim =
     (if refcnt item - 1 = 0 then (None, ncr_limits_remove lim (filp item))
      else (Some (item\<lparr>refcnt := refcnt item - 1\<rparr>), lim))"

text \<open>
  \<^verbatim>\<open>_ncr_key_item_put\<close> on an item that is still linked in the list, as every operation does
  with the item it borrowed. Were the item freed here, the list would keep a pointer to
  released storage; the model keeps the entry with \<open>refcnt = 0\<close> to mark that. It does not
  happen while every linked item has \<open>refcnt \<ge> 1\<close> (\<open>key_lst_inv\<close> below).
\<close>

definition put_linked :: "nat \<Rightarrow> ncr_state \<Rightarrow> ncr_state" where
  "put_linked i s =
     (case ncr_key_item_put (key_lst s ! i) (limits s) of
        (None, lim) \<Rightarrow>
          s\<lparr>key_lst := (key_lst s)[i := (key_lst s ! i)\<lparr>refcnt := 0\<rparr>], limits := lim\<rparr>
      | (Some item, lim) \<Rightarrow> s\<lparr>key_lst := (key_lst s)[i := item], limits := lim\<rparr>)"

definition put_data :: "nat \<Rightarrow> ncr_state \<Rightarrow> ncr_state" where
  "put_data j s = s\<lparr>data_lst := (data_lst s)[j := ncr_data_item_put (data_lst s ! j)]\<rparr>"

text \<open>\<^verbatim>\<open>memset(key, 0, sizeof(*key))\<close> on a fresh item.\<close>

definition zero_key :: "ncr_h \<Rightarrow> key_item" where
  "zero_key c =
     \<lparr>desc = 0, filp = 0, refcnt = 0, type = 0, flags = 0, algorithm = 0,
      key_id = replicate (MAX_KEY_ID_SIZE c) 0, key_id_size = 0,
      secret_data = replicate (MAX_KEY_SIZE c) 0, secret_size = 0\<rparr>"

text \<open>\<^verbatim>\<open>ncr_key_init\<close>. \<open>kmalloc_ok\<close> tells whether \<^verbatim>\<open>kmalloc\<close> returns storage; \<open>arg\<close> is the
  descriptor in user space, written on success only.\<close>

definition ncr_key_init ::
  "ncr_h \<Rightarrow> file_ptr \<Rightarrow> bool \<Rightarrow> ncr_state \<Rightarrow> ncr_key_t \<Rightarrow> ret \<times> ncr_state \<times> ncr_key_t" where
  "ncr_key_init c f kmalloc_ok s arg =
     (case ncr_limits_add_and_check (limits s) f of
        Inl e \<Rightarrow> (Inl e, s, arg)
      | Inr lim \<Rightarrow>
          let s1 = s\<lparr>limits := lim\<rparr> in
          if \<not> kmalloc_ok then (Inl ENOMEM, s1, arg)
          else
            let key = (zero_key c)\<lparr>refcnt := 1\<rparr>;
                key = key\<lparr>desc := ncr_key_get_new_desc (key_lst s1), filp := f\<rparr>
            in (Inr (), s1\<lparr>key_lst := key # key_lst s1\<rparr>, desc key))"

text \<open>\<^verbatim>\<open>ncr_key_deinit\<close>: the first item with the descriptor is unlinked and put. An item
  that outlives the put (a borrow is still out) is no longer reachable from the list.\<close>

definition ncr_key_deinit :: "ncr_state \<Rightarrow> ncr_key_t \<Rightarrow> ret \<times> ncr_state" where
  "ncr_key_deinit s arg =
     (case key_find (key_lst s) arg of
        None \<Rightarrow> (Inr (), s)
      | Some i \<Rightarrow>
          let item = key_lst s ! i;
              lst = take i (key_lst s) @ drop (Suc i) (key_lst s);
              (freed, lim) = ncr_key_item_put item (limits s)
          in (Inr (), s\<lparr>key_lst := lst, limits := lim\<rparr>))"

text \<open>\<^verbatim>\<open>ncr_key_list_deinit\<close>: every item is unlinked and put, from the head on.\<close>

fun put_all :: "key_item list \<Rightarrow> ncr_limits \<Rightarrow> ncr_limits" where
  "put_all [] lim = lim"
| "put_all (item # rest) lim = put_all rest (snd (ncr_key_item_put item lim))"

definition ncr_key_list_deinit :: "ncr_state \<Rightarrow> ncr_state" where
  "ncr_key_list_deinit s = s\<lparr>key_lst := [], limits := put_all (key_lst s) (limits s)\<rparr>"

subsection \<open>Operations on a key item\<close>

text \<open>\<^verbatim>\<open>ncr_key_export\<close>.\<close>

definition ncr_key_export :: "ncr_h \<Rightarrow> ncr_state \<Rightarrow> ncr_key_data_st \<Rightarrow> ret \<times> ncr_state" where
  "ncr_key_export c s arg =
     (case ncr_key_item_get (key_lst s) (arg_key arg) of
        None \<Rightarrow> (Inl EINVAL, s)
      | Some (i, lst) \<Rightarrow>
          let s1 = s\<lparr>key_lst := lst\<rparr> in
          (case ncr_data_item_get (data_lst s1) (arg_data arg) of
             None \<Rightarrow> (Inl EINVAL, put_linked i s1)
           | Some j \<Rightarrow>
               let item = key_lst s1 ! i; ditem = data_lst s1 ! j in
               if type item = NCR_KEY_TYPE_SECRET c then
                 if secret_size item > max_data_size ditem
                 then (Inl EINVAL, put_data j (put_linked i s1))
                 else
                   let ditem = ditem\<lparr>d_flags := 0\<rparr>;
                       ditem =
                         (if flags item AND NCR_KEY_FLAG_EXPORTABLE c \<noteq> 0
                          then ditem\<lparr>d_flags := d_flags ditem OR NCR_DATA_FLAG_EXPORTABLE c\<rparr>
                          else ditem);
                       ditem =
                         (if secret_size item > 0
                          then ditem\<lparr>data := memcpy (data ditem) (secret_data item) (secret_size item)\<rparr>
                          else ditem);
                       ditem = ditem\<lparr>data_size := secret_size item\<rparr>;
                       s2 = s1\<lparr>data_lst := (data_lst s1)[j := ditem]\<rparr>
                   in (Inr (), put_data j (put_linked i s2))
               else (Inl EINVAL, put_data j (put_linked i s1))))"

text \<open>\<^verbatim>\<open>ncr_key_import\<close>.\<close>

definition ncr_key_import :: "ncr_h \<Rightarrow> ncr_state \<Rightarrow> ncr_key_data_st \<Rightarrow> ret \<times> ncr_state" where
  "ncr_key_import c s arg =
     (case ncr_key_item_get (key_lst s) (arg_key arg) of
        None \<Rightarrow> (Inl EINVAL, s)
      | Some (i, lst) \<Rightarrow>
          let s1 = s\<lparr>key_lst := lst\<rparr> in
          (case ncr_data_item_get (data_lst s1) (arg_data arg) of
             None \<Rightarrow> (Inl EINVAL, put_linked i s1)
           | Some j \<Rightarrow>
               let ditem = data_lst s1 ! j;
                   item = key_lst s1 ! i;
                   item = item\<lparr>type := arg_type arg, algorithm := arg_algorithm arg,
                               flags := arg_flags arg\<rparr>;
                   item =
                     (if d_flags ditem AND NCR_DATA_FLAG_EXPORTABLE c \<noteq> 0
                      then item\<lparr>flags := flags item OR NCR_KEY_FLAG_EXPORTABLE c\<rparr>
                      else item);
                   fail = (\<lambda>item. (Inl EINVAL,
                             put_data j (put_linked i (s1\<lparr>key_lst := (key_lst s1)[i := item]\<rparr>))))
               in
               if type item = NCR_KEY_TYPE_SECRET c then
                 if arg_key_id_size arg > MAX_KEY_ID_SIZE c then fail item
                 else
                   let item = item\<lparr>key_id_size := arg_key_id_size arg\<rparr>;
                       item =
                         (if arg_key_id_size arg > 0
                          then item\<lparr>key_id := memcpy (key_id item) (arg_key_id arg) (arg_key_id_size arg)\<rparr>
                          else item)
                   in
                   if data_size ditem > MAX_KEY_SIZE c then fail item
                   else
                     let item = item\<lparr>secret_data := memcpy (secret_data item) (data ditem) (data_size ditem)\<rparr>;
                         item = item\<lparr>secret_size := data_size ditem\<rparr>
                     in (Inr (),
                         put_data j (put_linked i (s1\<lparr>key_lst := (key_lst s1)[i := item]\<rparr>)))
               else fail item))"

text \<open>\<^verbatim>\<open>ncr_key_generate\<close>.\<close>

definition ncr_key_generate :: "ncr_h \<Rightarrow> ncr_state \<Rightarrow> ncr_key_generate_st \<Rightarrow> ret \<times> ncr_state" where
  "ncr_key_generate c s gen =
     (case ncr_key_item_get (key_lst s) (gen_desc gen) of
        None \<Rightarrow> (Inl EINVAL, s)
      | Some (i, lst) \<Rightarrow>
          let s1 = s\<lparr>key_lst := lst\<rparr>;
              item = key_lst s1 ! i;
              item = item\<lparr>type := ncr_algorithm_to_key_type c (gen_algorithm gen)\<rparr>;
              fail = (\<lambda>item. (Inl EINVAL, put_linked i (s1\<lparr>key_lst := (key_lst s1)[i := item]\<rparr>)))
          in
          if type item \<noteq> NCR_KEY_TYPE_SECRET c then fail item
          else
            let item = item\<lparr>flags := gen_keyflags gen\<rparr>;
                item = item\<lparr>algorithm := NCR_ALG_AES_CBC c\<rparr>;
                size = gen_bits gen div 8
            in
            if gen_bits gen mod 8 \<noteq> 0 \<or> size > MAX_KEY_SIZE c then fail item
            else
              let (buf, rnd) = get_random_bytes (secret_data item) size (random s1);
                  item = item\<lparr>secret_data := buf\<rparr>;
                  item = item\<lparr>secret_size := size\<rparr>;
                  item = item\<lparr>key_id_size := 5\<rparr>;
                  (buf, rnd) = get_random_bytes (key_id item) (key_id_size item) rnd;
                  item = item\<lparr>key_id := buf\<rparr>
              in (Inr (),
                  put_linked i (s1\<lparr>key_lst := (key_lst s1)[i := item], random := rnd\<rparr>)))"

text \<open>\<^verbatim>\<open>ncr_key_info\<close>. The source fills its local \<^verbatim>\<open>info\<close> and returns; it has no
  \<^verbatim>\<open>copy_to_user\<close>. The second component is the local structure as it stands at the
  return.\<close>

definition ncr_key_info :: "ncr_state \<Rightarrow> ncr_key_info_st \<Rightarrow> ret \<times> ncr_key_info_st \<times> ncr_state" where
  "ncr_key_info s info =
     (case ncr_key_item_get (key_lst s) (info_key info) of
        None \<Rightarrow> (Inl EINVAL, info, s)
      | Some (i, lst) \<Rightarrow>
          let s1 = s\<lparr>key_lst := lst\<rparr>;
              item = key_lst s1 ! i;
              info = info\<lparr>info_flags := flags item\<rparr>;
              info = info\<lparr>info_type := type item\<rparr>;
              info = info\<lparr>info_algorithm := algorithm item\<rparr>
          in (Inr (), info, put_linked i s1))"

text \<open>The three functions that wait for the public key subsystem.\<close>

definition ncr_key_generate_pair :: "ncr_state \<Rightarrow> 'a \<Rightarrow> ret \<times> ncr_state" where
  "ncr_key_generate_pair s arg = (Inl EINVAL, s)"

definition ncr_key_derive :: "ncr_state \<Rightarrow> 'a \<Rightarrow> ret \<times> ncr_state" where
  "ncr_key_derive s arg = (Inl EINVAL, s)"

definition ncr_key_get_public :: "ncr_state \<Rightarrow> 'a \<Rightarrow> ret \<times> ncr_state" where
  "ncr_key_get_public s arg = (Inl EINVAL, s)"

subsection \<open>Notions used in the statements\<close>

text \<open>The stored key material and the stored key id of an item, as pairs of the array
  and its length field.\<close>

definition stored_key :: "key_item \<Rightarrow> u8 list \<times> nat" where
  "stored_key item = (secret_data item, secret_size item)"

definition stored_key_id :: "key_item \<Rightarrow> u8 list \<times> nat" where
  "stored_key_id item = (key_id item, key_id_size item)"

text \<open>The descriptors of a list are positive and leave room for \<open>n\<close> more below
  \<^verbatim>\<open>INT_MAX\<close> = 2147483647.\<close>

definition handles_ok :: "key_item list \<Rightarrow> nat \<Rightarrow> bool" where
  "handles_ok lst n =
     (list_all (\<lambda>item. 1 \<le> sint (desc item) \<and> sint (desc item) + int n \<le> 2147483647) lst \<and>
      int n \<le> 2147483647)"

text \<open>A run of calls of \<^verbatim>\<open>ncr_key_init\<close> against one registry, one call per element of
  \<open>oks\<close> (the outcome of its \<^verbatim>\<open>kmalloc\<close>); the result lists the descriptors the successful
  calls returned, in the order of the calls.\<close>

fun init_calls :: "ncr_h \<Rightarrow> file_ptr \<Rightarrow> bool list \<Rightarrow> ncr_state \<Rightarrow> ncr_key_t list \<times> ncr_state" where
  "init_calls c f [] s = ([], s)"
| "init_calls c f (ok # oks) s =
     (case ncr_key_init c f ok s 0 of
        (Inl e, s1, d) \<Rightarrow> init_calls c f oks s1
      | (Inr u, s1, d) \<Rightarrow> (case init_calls c f oks s1 of (ds, s2) \<Rightarrow> (d # ds, s2)))"

subsection \<open>Sample values\<close>

text \<open>One instance of the parameters, a registry with one freshly allocated key and one
  data buffer of capacity 16, and requests, on which the closed instances below are
  evaluated.\<close>

definition sample_h :: ncr_h where
  "sample_h =
     \<lparr>MAX_KEY_SIZE = 32, MAX_KEY_ID_SIZE = 20, NCR_KEY_TYPE_SECRET = 1,
      NCR_KEY_TYPE_PUBLIC = 2, NCR_KEY_TYPE_PRIVATE = 3, NCR_KEY_FLAG_EXPORTABLE = 1,
      NCR_DATA_FLAG_EXPORTABLE = 1, NCR_ALG_AES_CBC = 3,
      ncr_algorithm_to_key_type = (\<lambda>a. if a = 2 \<or> a = 3 then 1 else if a = 140 then 2 else 0)\<rparr>"

definition sample_key :: key_item where
  "sample_key = (zero_key sample_h)\<lparr>desc := 1, filp := 7, refcnt := 1\<rparr>"

definition sample_data :: data_item where
  "sample_data =
     \<lparr>d_desc = 1, d_flags = 0, data = replicate 16 0, data_size = 0, max_data_size = 16\<rparr>"

definition sample_state :: ncr_state where
  "sample_state =
     \<lparr>key_lst = [sample_key], data_lst = [sample_data],
      limits = \<lparr>max_keys = 8, key_cnt = (\<lambda>f. if f = 7 then 1 else 0)\<rparr>,
      random = (\<lambda>k. of_nat k)\<rparr>"

definition gen_255 :: ncr_key_generate_st where
  "gen_255 = \<lparr>gen_desc = 1, gen_algorithm = 2, gen_keyflags = 1, gen_bits = 255\<rparr>"

definition gen_128 :: ncr_key_generate_st where
  "gen_128 = \<lparr>gen_desc = 1, gen_algorithm = 2, gen_keyflags = 1, gen_bits = 128\<rparr>"

definition info_1 :: ncr_key_info_st where
  "info_1 = \<lparr>info_key = 1, info_flags = 0, info_type = 0, info_algorithm = 0\<rparr>"

definition import_bad_type :: ncr_key_data_st where
  "import_bad_type =
     \<lparr>arg_key = 1, arg_data = 1, arg_key_id = replicate 20 0, arg_key_id_size = 4,
      arg_type = 2, arg_algorithm = 140, arg_flags = 1\<rparr>"

text \<open>A registry with no key and no owner counted.\<close>

definition empty_state :: ncr_state where
  "empty_state =
     \<lparr>key_lst = [], data_lst = [], limits = \<lparr>max_keys = 8, key_cnt = (\<lambda>f. 0)\<rparr>,
      random = (\<lambda>k. of_nat k)\<rparr>"

text \<open>A registry whose key 1 holds the four secret bytes 1, 2, 3, 4 with flags \<open>kf\<close>, next
  to three data buffers: buffer 1 of capacity 16 with flags \<open>df\<close>, buffer 2 of capacity 2,
  and buffer 3 holding the three bytes 10, 20, 30.\<close>

definition io_state :: "32 word \<Rightarrow> 32 word \<Rightarrow> ncr_state" where
  "io_state kf df =
     \<lparr>key_lst = [sample_key\<lparr>type := 1, flags := kf, algorithm := 3,
                    secret_data := [1, 2, 3, 4] @ replicate 28 0, secret_size := 4\<rparr>],
      data_lst = [sample_data\<lparr>d_flags := df\<rparr>,
                  \<lparr>d_desc = 2, d_flags = 0, data = [0, 0], data_size = 0, max_data_size = 2\<rparr>,
                  \<lparr>d_desc = 3, d_flags = 0, data = [10, 20, 30, 0, 0, 0, 0, 0], data_size = 3,
                   max_data_size = 8\<rparr>],
      limits = \<lparr>max_keys = 8, key_cnt = (\<lambda>f. if f = 7 then 1 else 0)\<rparr>,
      random = (\<lambda>k. of_nat k)\<rparr>"

text \<open>The same registry with key 1 of the public type.\<close>

definition public_state :: ncr_state where
  "public_state = (io_state 1 0)\<lparr>key_lst := map (\<lambda>item. item\<lparr>type := 2\<rparr>) (key_lst (io_state 1 0))\<rparr>"

definition data_arg :: "ncr_key_t \<Rightarrow> ncr_data_t \<Rightarrow> ncr_key_data_st" where
  "data_arg k d =
     \<lparr>arg_key = k, arg_data = d, arg_key_id = replicate 20 0, arg_key_id_size = 4,
      arg_type = 1, arg_algorithm = 3, arg_flags = 0\<rparr>"

text \<open>A request to generate with an algorithm of the public type, and the registry of
  \<open>io_state 0 0\<close> next to one data buffer that holds 40 bytes, more than \<open>MAX_KEY_SIZE\<close>.\<close>

definition gen_public :: ncr_key_generate_st where
  "gen_public = \<lparr>gen_desc = 1, gen_algorithm = 140, gen_keyflags = 1, gen_bits = 128\<rparr>"

definition big_source_state :: ncr_state where
  "big_source_state =
     (io_state 0 0)\<lparr>data_lst :=
       [\<lparr>d_desc = 4, d_flags = 0, data = replicate 40 7, data_size = 40, max_data_size = 40\<rparr>]\<rparr>"

text \<open>The sample registry with the descriptor of its key at \<^verbatim>\<open>INT_MAX\<close>.\<close>

definition int_max_state :: ncr_state where
  "int_max_state = sample_state\<lparr>key_lst := [sample_key\<lparr>desc := 2147483647\<rparr>]\<rparr>"

section \<open>Properties\<close>

subsection \<open>What each operation computes\<close>

lemma key_find_Some: "key_find lst d = Some i \<Longrightarrow> i < length lst \<and> desc (lst ! i) = d"
  by (induction lst arbitrary: i) (auto split: if_splits)

lemma data_get_Some: "ncr_data_item_get lst d = Some j \<Longrightarrow> j < length lst \<and> d_desc (lst ! j) = d"
  by (induction lst arbitrary: j) (auto split: if_splits)

lemma put_linked_upd:
  "refcnt (key_lst s ! i) \<noteq> 1 \<Longrightarrow>
   put_linked i s =
   s\<lparr>key_lst := (key_lst s)[i := (key_lst s ! i)\<lparr>refcnt := refcnt (key_lst s ! i) - 1\<rparr>]\<rparr>"
  by (simp add: put_linked_def ncr_key_item_put_def)

lemma put_data_id: "put_data j s = s"
  by (simp add: put_data_def ncr_data_item_put_def)

lemma generate_found:
  assumes "key_find (key_lst s) (gen_desc gen) = Some i" and "1 \<le> refcnt (key_lst s ! i)"
  shows "ncr_key_generate c s gen =
    (let item = key_lst s ! i;
         item1 = item\<lparr>type := ncr_algorithm_to_key_type c (gen_algorithm gen)\<rparr>;
         item2 = item1\<lparr>flags := gen_keyflags gen, algorithm := NCR_ALG_AES_CBC c\<rparr>;
         n = gen_bits gen div 8
     in if ncr_algorithm_to_key_type c (gen_algorithm gen) \<noteq> NCR_KEY_TYPE_SECRET c
        then (Inl EINVAL, s\<lparr>key_lst := (key_lst s)[i := item1]\<rparr>)
        else if gen_bits gen mod 8 \<noteq> 0 \<or> n > MAX_KEY_SIZE c
        then (Inl EINVAL, s\<lparr>key_lst := (key_lst s)[i := item2]\<rparr>)
        else (Inr (), s\<lparr>key_lst := (key_lst s)[i := item2\<lparr>
                  secret_data := map (random s) [0..<n] @ drop n (secret_data item),
                  secret_size := n, key_id_size := 5,
                  key_id := map (\<lambda>k. random s (n + k)) [0..<5] @ drop 5 (key_id item)\<rparr>],
                random := (\<lambda>k. random s (n + (5 + k)))\<rparr>))"
proof -
  from assms(1) have i: "i < length (key_lst s)" by (simp add: key_find_Some)
  show ?thesis
    using assms i
    by (simp add: ncr_key_generate_def ncr_key_item_get_def Let_def put_linked_upd
        get_random_bytes_def add.assoc)
qed


lemma generate_not_found:
  "key_find (key_lst s) (gen_desc gen) = None \<Longrightarrow> ncr_key_generate c s gen = (Inl EINVAL, s)"
  by (simp add: ncr_key_generate_def ncr_key_item_get_def)

lemma export_found:
  assumes "key_find (key_lst s) (arg_key arg) = Some i" and "1 \<le> refcnt (key_lst s ! i)"
      and "ncr_data_item_get (data_lst s) (arg_data arg) = Some j"
  shows "ncr_key_export c s arg =
    (let item = key_lst s ! i; ditem = data_lst s ! j
     in if type item = NCR_KEY_TYPE_SECRET c \<and> secret_size item \<le> max_data_size ditem
        then (Inr (), s\<lparr>data_lst := (data_lst s)[j := ditem\<lparr>
                d_flags := (if flags item AND NCR_KEY_FLAG_EXPORTABLE c \<noteq> 0
                            then NCR_DATA_FLAG_EXPORTABLE c else 0),
                data := (if 0 < secret_size item
                         then memcpy (data ditem) (secret_data item) (secret_size item)
                         else data ditem),
                data_size := secret_size item\<rparr>]\<rparr>)
        else (Inl EINVAL, s))"
proof -
  from assms(1) have i: "i < length (key_lst s)" by (simp add: key_find_Some)
  show ?thesis
    using assms i
    by (simp add: ncr_key_export_def ncr_key_item_get_def Let_def put_linked_upd put_data_id)
qed

lemma export_data_not_found:
  assumes "key_find (key_lst s) (arg_key arg) = Some i" and "1 \<le> refcnt (key_lst s ! i)"
      and "ncr_data_item_get (data_lst s) (arg_data arg) = None"
  shows "ncr_key_export c s arg = (Inl EINVAL, s)"
proof -
  from assms(1) have i: "i < length (key_lst s)" by (simp add: key_find_Some)
  show ?thesis
    using assms i
    by (simp add: ncr_key_export_def ncr_key_item_get_def Let_def put_linked_upd)
qed

lemma import_found:
  assumes "key_find (key_lst s) (arg_key arg) = Some i" and "1 \<le> refcnt (key_lst s ! i)"
      and "ncr_data_item_get (data_lst s) (arg_data arg) = Some j"
  shows "ncr_key_import c s arg =
    (let item = key_lst s ! i; ditem = data_lst s ! j;
         item1 = item\<lparr>type := arg_type arg, algorithm := arg_algorithm arg,
                      flags := (if d_flags ditem AND NCR_DATA_FLAG_EXPORTABLE c \<noteq> 0
                                then arg_flags arg OR NCR_KEY_FLAG_EXPORTABLE c
                                else arg_flags arg)\<rparr>;
         item2 = item1\<lparr>key_id_size := arg_key_id_size arg,
                       key_id := (if 0 < arg_key_id_size arg
                                  then memcpy (key_id item) (arg_key_id arg) (arg_key_id_size arg)
                                  else key_id item)\<rparr>
     in if arg_type arg \<noteq> NCR_KEY_TYPE_SECRET c \<or> arg_key_id_size arg > MAX_KEY_ID_SIZE c
        then (Inl EINVAL, s\<lparr>key_lst := (key_lst s)[i := item1]\<rparr>)
        else if data_size ditem > MAX_KEY_SIZE c
        then (Inl EINVAL, s\<lparr>key_lst := (key_lst s)[i := item2]\<rparr>)
        else (Inr (), s\<lparr>key_lst := (key_lst s)[i := item2\<lparr>
                secret_data := memcpy (secret_data item) (data ditem) (data_size ditem),
                secret_size := data_size ditem\<rparr>]\<rparr>))"
proof -
  from assms(1) have i: "i < length (key_lst s)" by (simp add: key_find_Some)
  show ?thesis
    using assms i
    by (simp add: ncr_key_import_def ncr_key_item_get_def Let_def put_linked_upd put_data_id)
qed

lemma info_found:
  assumes "key_find (key_lst s) (info_key info) = Some i" and "1 \<le> refcnt (key_lst s ! i)"
  shows "ncr_key_info s info =
    (Inr (), info\<lparr>info_flags := flags (key_lst s ! i), info_type := type (key_lst s ! i),
                  info_algorithm := algorithm (key_lst s ! i)\<rparr>, s)"
proof -
  from assms(1) have i: "i < length (key_lst s)" by (simp add: key_find_Some)
  show ?thesis
    using assms i
    by (simp add: ncr_key_info_def ncr_key_item_get_def Let_def put_linked_upd)
qed


lemma sample_find: "key_find (key_lst sample_state) 1 = Some 0"
  by (simp add: sample_state_def sample_key_def zero_key_def)

lemma sample_refcnt: "1 \<le> refcnt (key_lst sample_state ! 0)"
  by (simp add: sample_state_def sample_key_def zero_key_def)


lemma io_find: "key_find (key_lst (io_state kf df)) 1 = Some 0"
  by (simp add: io_state_def sample_key_def zero_key_def)

lemma io_refcnt: "1 \<le> refcnt (key_lst (io_state kf df) ! 0)"
  by (simp add: io_state_def sample_key_def zero_key_def)

lemma io_data:
  "ncr_data_item_get (data_lst (io_state kf df)) 1 = Some 0"
  "ncr_data_item_get (data_lst (io_state kf df)) 2 = Some 1"
  "ncr_data_item_get (data_lst (io_state kf df)) 3 = Some 2"
  by (simp_all add: io_state_def sample_data_def)

lemma io_inv: "\<forall>item \<in> set (key_lst (io_state kf df)). 1 \<le> refcnt item"
  by (simp add: io_state_def sample_key_def zero_key_def)

subsection \<open>Generation\<close>

text \<open>
  C10. When \<^verbatim>\<open>ncr_key_generate\<close> finds the item, the catalog classifies the algorithm as
  secret, and the bit count is not a multiple of 8 or exceeds \<open>MAX_KEY_SIZE\<close> bytes, the call
  fails with \<open>EINVAL\<close> and leaves the item's key material bytes, material length, key id and
  key id length as they were, while the item's type, flags and algorithm have been
  overwritten (with the secret type, the requested flags and \<open>NCR_ALG_AES_CBC\<close>).
\<close>

theorem generate_bits_failure_frame:
  assumes "key_find (key_lst s) (gen_desc gen) = Some i"
      and "1 \<le> refcnt (key_lst s ! i)"
      and "ncr_algorithm_to_key_type c (gen_algorithm gen) = NCR_KEY_TYPE_SECRET c"
      and "gen_bits gen mod 8 \<noteq> 0 \<or> gen_bits gen div 8 > MAX_KEY_SIZE c"
  shows "fst (ncr_key_generate c s gen) = Inl EINVAL \<and>
         secret_data (key_lst (snd (ncr_key_generate c s gen)) ! i) = secret_data (key_lst s ! i) \<and>
         secret_size (key_lst (snd (ncr_key_generate c s gen)) ! i) = secret_size (key_lst s ! i) \<and>
         key_id (key_lst (snd (ncr_key_generate c s gen)) ! i) = key_id (key_lst s ! i) \<and>
         key_id_size (key_lst (snd (ncr_key_generate c s gen)) ! i) = key_id_size (key_lst s ! i) \<and>
         type (key_lst (snd (ncr_key_generate c s gen)) ! i) = NCR_KEY_TYPE_SECRET c \<and>
         flags (key_lst (snd (ncr_key_generate c s gen)) ! i) = gen_keyflags gen \<and>
         algorithm (key_lst (snd (ncr_key_generate c s gen)) ! i) = NCR_ALG_AES_CBC c"
proof -
  from assms(1) have i: "i < length (key_lst s)" by (simp add: key_find_Some)
  have "ncr_key_generate c s gen =
      (Inl EINVAL, s\<lparr>key_lst := (key_lst s)[i := (key_lst s ! i)\<lparr>
          type := NCR_KEY_TYPE_SECRET c, flags := gen_keyflags gen,
          algorithm := NCR_ALG_AES_CBC c\<rparr>]\<rparr>)"
    using assms by (auto simp add: generate_found Let_def)
  then show ?thesis using i by simp
qed

theorem generate_bits_failure_frame_witness:
  "key_find (key_lst sample_state) (gen_desc gen_255) = Some 0 \<and>
   1 \<le> refcnt (key_lst sample_state ! 0) \<and>
   ncr_algorithm_to_key_type sample_h (gen_algorithm gen_255) = NCR_KEY_TYPE_SECRET sample_h \<and>
   gen_bits gen_255 mod 8 \<noteq> 0 \<and>
   fst (ncr_key_generate sample_h sample_state gen_255) = Inl EINVAL \<and>
   secret_size (key_lst (snd (ncr_key_generate sample_h sample_state gen_255)) ! 0) = 0 \<and>
   key_id_size (key_lst (snd (ncr_key_generate sample_h sample_state gen_255)) ! 0) = 0 \<and>
   type (key_lst (snd (ncr_key_generate sample_h sample_state gen_255)) ! 0) = 1 \<and>
   flags (key_lst (snd (ncr_key_generate sample_h sample_state gen_255)) ! 0) = 1 \<and>
   algorithm (key_lst (snd (ncr_key_generate sample_h sample_state gen_255)) ! 0) = 3"
proof -
  have h1: "key_find (key_lst sample_state) (gen_desc gen_255) = Some 0"
    by (simp add: gen_255_def sample_find)
  have h3: "ncr_algorithm_to_key_type sample_h (gen_algorithm gen_255) = NCR_KEY_TYPE_SECRET sample_h"
    by (simp add: gen_255_def sample_h_def)
  have h4: "gen_bits gen_255 mod 8 \<noteq> 0 \<or> gen_bits gen_255 div 8 > MAX_KEY_SIZE sample_h"
    by (simp add: gen_255_def)
  have old: "secret_size (key_lst sample_state ! 0) = 0" "key_id_size (key_lst sample_state ! 0) = 0"
    by (simp_all add: sample_state_def sample_key_def zero_key_def)
  have more: "gen_keyflags gen_255 = 1" "NCR_ALG_AES_CBC sample_h = 3" "NCR_KEY_TYPE_SECRET sample_h = 1"
       "gen_bits gen_255 mod 8 \<noteq> 0"
    by (simp_all add: gen_255_def sample_h_def)
  show ?thesis
    using generate_bits_failure_frame [OF h1 sample_refcnt h3 h4] h1 h3 sample_refcnt old more
    by simp
qed

lemma key_find_update:
  "desc item = desc (lst ! i) \<Longrightarrow> i < length lst \<Longrightarrow> key_find (lst[i := item]) d = key_find lst d"
proof (induction lst arbitrary: i)
  case Nil
  then show ?case by simp
next
  case (Cons a lst)
  then show ?case by (cases i) auto
qed

lemma map_update_same:
  "i < length lst \<Longrightarrow> f x = f (lst ! i) \<Longrightarrow> map f (lst[i := x]) = map f lst"
  by (simp add: map_update list_update_same_conv)

lemma import_key_not_found:
  "key_find (key_lst s) (arg_key arg) = None \<Longrightarrow> ncr_key_import c s arg = (Inl EINVAL, s)"
  by (simp add: ncr_key_import_def ncr_key_item_get_def)

lemma import_data_not_found:
  assumes "key_find (key_lst s) (arg_key arg) = Some i" and "1 \<le> refcnt (key_lst s ! i)"
      and "ncr_data_item_get (data_lst s) (arg_data arg) = None"
  shows "ncr_key_import c s arg = (Inl EINVAL, s)"
proof -
  from assms(1) have i: "i < length (key_lst s)" by (simp add: key_find_Some)
  show ?thesis
    using assms i
    by (simp add: ncr_key_import_def ncr_key_item_get_def Let_def put_linked_upd)
qed

lemma generate_success_item:
  assumes "key_find (key_lst s) (gen_desc gen) = Some i"
      and "1 \<le> refcnt (key_lst s ! i)"
      and "fst (ncr_key_generate c s gen) = Inr ()"
  shows "\<exists>item. key_lst (snd (ncr_key_generate c s gen)) = (key_lst s)[i := item] \<and>
           desc item = desc (key_lst s ! i) \<and> refcnt item = refcnt (key_lst s ! i) \<and>
           type item = NCR_KEY_TYPE_SECRET c \<and> flags item = gen_keyflags gen \<and>
           algorithm item = NCR_ALG_AES_CBC c"
proof -
  from assms have ok:
    "ncr_algorithm_to_key_type c (gen_algorithm gen) = NCR_KEY_TYPE_SECRET c"
    by (auto simp add: generate_found Let_def split: if_splits)
  with assms show ?thesis
    by (auto simp add: generate_found Let_def split: if_splits)
qed

lemma sample_generate_128_ok: "fst (ncr_key_generate sample_h sample_state gen_128) = Inr ()"
proof -
  have h1: "key_find (key_lst sample_state) (gen_desc gen_128) = Some 0"
    by (simp add: gen_128_def sample_find)
  show ?thesis
    unfolding generate_found [OF h1 sample_refcnt] Let_def
    by (simp add: gen_128_def sample_h_def)
qed

text \<open>
  C8. Whatever the request, \<^verbatim>\<open>ncr_key_generate\<close> fails with \<open>EINVAL\<close> when the bit count is not a
  multiple of 8 or its eighth exceeds \<open>MAX_KEY_SIZE\<close>. Otherwise, for a descriptor of a live
  item and an algorithm the catalog classifies as secret, it succeeds and the item's key
  material is a byte sequence of length \<open>bits / 8\<close> (the next bytes of the random generator).
\<close>

theorem generate_bits_validation:
  "(gen_bits gen mod 8 \<noteq> 0 \<or> gen_bits gen div 8 > MAX_KEY_SIZE c \<longrightarrow>
      fst (ncr_key_generate c s gen) = Inl EINVAL) \<and>
   (gen_bits gen mod 8 = 0 \<and> gen_bits gen div 8 \<le> MAX_KEY_SIZE c \<and>
    key_find (key_lst s) (gen_desc gen) = Some i \<and> 1 \<le> refcnt (key_lst s ! i) \<and>
    ncr_algorithm_to_key_type c (gen_algorithm gen) = NCR_KEY_TYPE_SECRET c \<longrightarrow>
      fst (ncr_key_generate c s gen) = Inr () \<and>
      secret_size (key_lst (snd (ncr_key_generate c s gen)) ! i) = gen_bits gen div 8 \<and>
      length (material (key_lst (snd (ncr_key_generate c s gen)) ! i)) = gen_bits gen div 8 \<and>
      material (key_lst (snd (ncr_key_generate c s gen)) ! i) =
        map (random s) [0..<gen_bits gen div 8])"
proof (intro conjI impI)
  assume bad: "gen_bits gen mod 8 \<noteq> 0 \<or> gen_bits gen div 8 > MAX_KEY_SIZE c"
  show "fst (ncr_key_generate c s gen) = Inl EINVAL"
  proof (cases "key_find (key_lst s) (gen_desc gen)")
    case None
    then show ?thesis by (simp add: generate_not_found)
  next
    case (Some k)
    with bad show ?thesis
      by (auto simp add: ncr_key_generate_def ncr_key_item_get_def Let_def)
  qed
next
  assume ok: "gen_bits gen mod 8 = 0 \<and> gen_bits gen div 8 \<le> MAX_KEY_SIZE c \<and>
    key_find (key_lst s) (gen_desc gen) = Some i \<and> 1 \<le> refcnt (key_lst s ! i) \<and>
    ncr_algorithm_to_key_type c (gen_algorithm gen) = NCR_KEY_TYPE_SECRET c"
  then have i: "i < length (key_lst s)" by (auto dest: key_find_Some)
  from ok have g: "ncr_key_generate c s gen =
     (Inr (), s\<lparr>key_lst := (key_lst s)[i := (key_lst s ! i)\<lparr>
          type := ncr_algorithm_to_key_type c (gen_algorithm gen),
          flags := gen_keyflags gen, algorithm := NCR_ALG_AES_CBC c,
          secret_data := map (random s) [0..<gen_bits gen div 8] @
                         drop (gen_bits gen div 8) (secret_data (key_lst s ! i)),
          secret_size := gen_bits gen div 8, key_id_size := 5,
          key_id := map (\<lambda>k. random s (gen_bits gen div 8 + k)) [0..<5] @
                    drop 5 (key_id (key_lst s ! i))\<rparr>],
        random := (\<lambda>k. random s (gen_bits gen div 8 + (5 + k)))\<rparr>)"
    by (simp add: generate_found Let_def)
  show "fst (ncr_key_generate c s gen) = Inr ()" by (simp add: g)
  show "secret_size (key_lst (snd (ncr_key_generate c s gen)) ! i) = gen_bits gen div 8"
    using i by (simp add: g)
  show "length (material (key_lst (snd (ncr_key_generate c s gen)) ! i)) = gen_bits gen div 8"
    using i by (simp add: g material_def)
  show "material (key_lst (snd (ncr_key_generate c s gen)) ! i) =
        map (random s) [0..<gen_bits gen div 8]"
    using i by (simp add: g material_def)
qed

theorem generate_bits_validation_witness:
  "gen_bits gen_255 mod 8 \<noteq> 0 \<and>
   fst (ncr_key_generate sample_h sample_state gen_255) = Inl EINVAL \<and>
   gen_bits gen_128 mod 8 = 0 \<and> gen_bits gen_128 div 8 \<le> MAX_KEY_SIZE sample_h \<and>
   key_find (key_lst sample_state) (gen_desc gen_128) = Some 0 \<and>
   1 \<le> refcnt (key_lst sample_state ! 0) \<and>
   ncr_algorithm_to_key_type sample_h (gen_algorithm gen_128) = NCR_KEY_TYPE_SECRET sample_h \<and>
   fst (ncr_key_generate sample_h sample_state gen_128) = Inr () \<and>
   secret_size (key_lst (snd (ncr_key_generate sample_h sample_state gen_128)) ! 0) = 16 \<and>
   length (material (key_lst (snd (ncr_key_generate sample_h sample_state gen_128)) ! 0)) = 16"
proof -
  have a: "gen_bits gen_255 mod 8 \<noteq> 0" by (simp add: gen_255_def)
  have b: "gen_bits gen_128 mod 8 = 0" "gen_bits gen_128 div 8 \<le> MAX_KEY_SIZE sample_h"
    "gen_bits gen_128 div 8 = 16"
    "key_find (key_lst sample_state) (gen_desc gen_128) = Some 0"
    "ncr_algorithm_to_key_type sample_h (gen_algorithm gen_128) = NCR_KEY_TYPE_SECRET sample_h"
    by (simp_all add: gen_128_def sample_h_def sample_find)
  show ?thesis
    using generate_bits_validation [of gen_255 sample_h sample_state 0]
      generate_bits_validation [of gen_128 sample_h sample_state 0] a b sample_refcnt
    by simp
qed


text \<open>
  C1, as amended. After a successful \<^verbatim>\<open>ncr_key_generate\<close> on a live item, \<^verbatim>\<open>ncr_key_info\<close> on the
  same descriptor succeeds and reads the secret type, the flags passed to generate, and the
  algorithm \<open>NCR_ALG_AES_CBC\<close>, whatever algorithm was passed to generate (the source stores
  that constant, marked arbitrary).
\<close>

theorem generate_then_info:
  assumes "key_find (key_lst s) (gen_desc gen) = Some i"
      and "1 \<le> refcnt (key_lst s ! i)"
      and "fst (ncr_key_generate c s gen) = Inr ()"
      and "info_key info = gen_desc gen"
  shows "fst (ncr_key_info (snd (ncr_key_generate c s gen)) info) = Inr () \<and>
         info_type (fst (snd (ncr_key_info (snd (ncr_key_generate c s gen)) info))) =
           NCR_KEY_TYPE_SECRET c \<and>
         info_flags (fst (snd (ncr_key_info (snd (ncr_key_generate c s gen)) info))) =
           gen_keyflags gen \<and>
         info_algorithm (fst (snd (ncr_key_info (snd (ncr_key_generate c s gen)) info))) =
           NCR_ALG_AES_CBC c"
proof -
  from assms(1) have i: "i < length (key_lst s)" by (simp add: key_find_Some)
  define s' where "s' = snd (ncr_key_generate c s gen)"
  from generate_success_item [OF assms(1-3)] obtain item where
    lst': "key_lst s' = (key_lst s)[i := item]" and
    item: "desc item = desc (key_lst s ! i)" "refcnt item = refcnt (key_lst s ! i)"
      "type item = NCR_KEY_TYPE_SECRET c" "flags item = gen_keyflags gen"
      "algorithm item = NCR_ALG_AES_CBC c"
    by (auto simp add: s'_def)
  have f: "key_find (key_lst s') (info_key info) = Some i"
    using assms(1,4) i item(1) by (simp add: lst' key_find_update)
  have r: "1 \<le> refcnt (key_lst s' ! i)"
    using assms(2) i item(2) by (simp add: lst')
  have "ncr_key_info s' info =
     (Inr (), info\<lparr>info_flags := gen_keyflags gen, info_type := NCR_KEY_TYPE_SECRET c,
                   info_algorithm := NCR_ALG_AES_CBC c\<rparr>, s')"
    using i item by (simp add: info_found [OF f r] lst')
  then show ?thesis by (simp add: s'_def)
qed


theorem generate_then_info_witness:
  "key_find (key_lst sample_state) (gen_desc gen_128) = Some 0 \<and>
   1 \<le> refcnt (key_lst sample_state ! 0) \<and>
   fst (ncr_key_generate sample_h sample_state gen_128) = Inr () \<and>
   info_key info_1 = gen_desc gen_128 \<and>
   fst (ncr_key_info (snd (ncr_key_generate sample_h sample_state gen_128)) info_1) = Inr () \<and>
   info_type (fst (snd (ncr_key_info (snd (ncr_key_generate sample_h sample_state gen_128)) info_1))) = 1 \<and>
   info_flags (fst (snd (ncr_key_info (snd (ncr_key_generate sample_h sample_state gen_128)) info_1))) = 1 \<and>
   info_algorithm (fst (snd (ncr_key_info (snd (ncr_key_generate sample_h sample_state gen_128)) info_1))) = 3"
proof -
  have h1: "key_find (key_lst sample_state) (gen_desc gen_128) = Some 0"
    by (simp add: gen_128_def sample_find)
  have h4: "info_key info_1 = gen_desc gen_128"
    by (simp add: info_1_def gen_128_def)
  have v: "NCR_KEY_TYPE_SECRET sample_h = 1" "gen_keyflags gen_128 = 1" "NCR_ALG_AES_CBC sample_h = 3"
    by (simp_all add: sample_h_def gen_128_def)
  show ?thesis
    using generate_then_info [OF h1 sample_refcnt sample_generate_128_ok h4]
      h1 sample_generate_128_ok h4 sample_refcnt v
    by simp
qed

text \<open>
  C1 as stated fails: the catalog of the sample parameters classifies algorithm 2 as secret,
  generation with algorithm 2, 128 bits and the exportable flag succeeds, and info then
  reads algorithm 3 (\<open>NCR_ALG_AES_CBC\<close>), not 2.
\<close>

theorem generate_info_algorithm_counterexample:
  "fst (ncr_key_generate sample_h sample_state gen_128) = Inr () \<and>
   fst (ncr_key_info (snd (ncr_key_generate sample_h sample_state gen_128)) info_1) = Inr () \<and>
   info_algorithm (fst (snd (ncr_key_info (snd (ncr_key_generate sample_h sample_state gen_128)) info_1))) \<noteq>
     gen_algorithm gen_128"
proof -
  define s' where "s' = snd (ncr_key_generate sample_h sample_state gen_128)"
  have h1: "key_find (key_lst sample_state) (gen_desc gen_128) = Some 0"
    by (simp add: gen_128_def sample_find)
  from generate_success_item [OF h1 sample_refcnt sample_generate_128_ok] obtain item where
    lst': "key_lst s' = (key_lst sample_state)[0 := item]" and
    item: "desc item = desc (key_lst sample_state ! 0)"
      "refcnt item = refcnt (key_lst sample_state ! 0)"
      "algorithm item = NCR_ALG_AES_CBC sample_h"
    by (auto simp add: s'_def)
  have f: "key_find (key_lst s') (info_key info_1) = Some 0"
    using item(1) by (simp add: lst' info_1_def sample_state_def sample_key_def zero_key_def)
  have r: "1 \<le> refcnt (key_lst s' ! 0)"
    using item(2) by (simp add: lst' sample_state_def sample_key_def zero_key_def)
  have "info_algorithm (fst (snd (ncr_key_info s' info_1))) = 3"
    using item(3) by (simp add: info_found [OF f r] lst' sample_state_def sample_h_def)
  moreover have "fst (ncr_key_info s' info_1) = Inr ()"
    by (simp add: info_found [OF f r])
  moreover have "gen_algorithm gen_128 = 2"
    by (simp add: gen_128_def)
  ultimately show ?thesis
    using sample_generate_128_ok by (simp add: s'_def)
qed

subsection \<open>Failing calls\<close>

lemma generate_failure_frame:
  assumes "\<forall>item \<in> set (key_lst s). 1 \<le> refcnt item"
      and "fst (ncr_key_generate c s gen) \<noteq> Inr ()"
  shows "map stored_key (key_lst (snd (ncr_key_generate c s gen))) = map stored_key (key_lst s)"
    and "map stored_key_id (key_lst (snd (ncr_key_generate c s gen))) = map stored_key_id (key_lst s)"
proof -
  have "map stored_key (key_lst (snd (ncr_key_generate c s gen))) = map stored_key (key_lst s) \<and>
        map stored_key_id (key_lst (snd (ncr_key_generate c s gen))) = map stored_key_id (key_lst s)"
  proof (cases "key_find (key_lst s) (gen_desc gen)")
    case None
    then show ?thesis by (simp add: generate_not_found)
  next
    case (Some i)
    then have i: "i < length (key_lst s)" by (simp add: key_find_Some)
    with assms(1) have r: "1 \<le> refcnt (key_lst s ! i)" by simp
    show ?thesis
      using assms(2) i
      by (auto simp add: generate_found [OF Some r] Let_def map_update_same stored_key_def
          stored_key_id_def split: if_splits)
  qed
  then show "map stored_key (key_lst (snd (ncr_key_generate c s gen))) = map stored_key (key_lst s)"
    and "map stored_key_id (key_lst (snd (ncr_key_generate c s gen))) = map stored_key_id (key_lst s)"
    by simp_all
qed

lemma import_failure_frame:
  assumes "\<forall>item \<in> set (key_lst s). 1 \<le> refcnt item"
      and "fst (ncr_key_import c s arg) \<noteq> Inr ()"
  shows "map stored_key (key_lst (snd (ncr_key_import c s arg))) = map stored_key (key_lst s)"
    and "arg_type arg \<noteq> NCR_KEY_TYPE_SECRET c \<or> arg_key_id_size arg > MAX_KEY_ID_SIZE c \<Longrightarrow>
         map stored_key_id (key_lst (snd (ncr_key_import c s arg))) = map stored_key_id (key_lst s)"
proof -
  have "map stored_key (key_lst (snd (ncr_key_import c s arg))) = map stored_key (key_lst s) \<and>
        (arg_type arg \<noteq> NCR_KEY_TYPE_SECRET c \<or> arg_key_id_size arg > MAX_KEY_ID_SIZE c \<longrightarrow>
         map stored_key_id (key_lst (snd (ncr_key_import c s arg))) = map stored_key_id (key_lst s))"
  proof (cases "key_find (key_lst s) (arg_key arg)")
    case None
    then show ?thesis by (simp add: import_key_not_found)
  next
    case (Some i)
    then have i: "i < length (key_lst s)" by (simp add: key_find_Some)
    with assms(1) have r: "1 \<le> refcnt (key_lst s ! i)" by simp
    show ?thesis
    proof (cases "ncr_data_item_get (data_lst s) (arg_data arg)")
      case None
      then show ?thesis by (simp add: import_data_not_found [OF Some r])
    next
      case (Some j)
      show ?thesis
        using assms(2) i
        by (auto simp add: import_found [OF \<open>key_find (key_lst s) (arg_key arg) = Some i\<close> r Some]
            Let_def map_update_same stored_key_def stored_key_id_def split: if_splits)
    qed
  qed
  then show "map stored_key (key_lst (snd (ncr_key_import c s arg))) = map stored_key (key_lst s)"
    and "arg_type arg \<noteq> NCR_KEY_TYPE_SECRET c \<or> arg_key_id_size arg > MAX_KEY_ID_SIZE c \<Longrightarrow>
         map stored_key_id (key_lst (snd (ncr_key_import c s arg))) = map stored_key_id (key_lst s)"
    by simp_all
qed

lemma generate_failure_state:
  assumes "\<forall>item \<in> set (key_lst s). 1 \<le> refcnt item"
      and "fst (ncr_key_generate c s gen) \<noteq> Inr ()"
  shows "snd (ncr_key_generate c s gen) =
     (case key_find (key_lst s) (gen_desc gen) of
        None \<Rightarrow> s
      | Some i \<Rightarrow>
          s\<lparr>key_lst := (key_lst s)[i :=
            (if ncr_algorithm_to_key_type c (gen_algorithm gen) \<noteq> NCR_KEY_TYPE_SECRET c
             then (key_lst s ! i)\<lparr>type := ncr_algorithm_to_key_type c (gen_algorithm gen)\<rparr>
             else (key_lst s ! i)\<lparr>type := NCR_KEY_TYPE_SECRET c, flags := gen_keyflags gen,
                                   algorithm := NCR_ALG_AES_CBC c\<rparr>)]\<rparr>)"
proof (cases "key_find (key_lst s) (gen_desc gen)")
  case None
  then show ?thesis by (simp add: generate_not_found)
next
  case (Some i)
  then have i: "i < length (key_lst s)" by (simp add: key_find_Some)
  with assms(1) have r: "1 \<le> refcnt (key_lst s ! i)" by simp
  show ?thesis
    using assms(2)
    by (auto simp add: generate_found [OF Some r] Some Let_def split: if_splits)
qed

lemma import_failure_state:
  assumes "\<forall>item \<in> set (key_lst s). 1 \<le> refcnt item"
      and "fst (ncr_key_import c s arg) \<noteq> Inr ()"
  shows "snd (ncr_key_import c s arg) =
     (case key_find (key_lst s) (arg_key arg) of
        None \<Rightarrow> s
      | Some i \<Rightarrow>
          (case ncr_data_item_get (data_lst s) (arg_data arg) of
             None \<Rightarrow> s
           | Some j \<Rightarrow>
               s\<lparr>key_lst := (key_lst s)[i :=
                 (if arg_type arg \<noteq> NCR_KEY_TYPE_SECRET c \<or>
                     arg_key_id_size arg > MAX_KEY_ID_SIZE c
                  then (key_lst s ! i)\<lparr>type := arg_type arg, algorithm := arg_algorithm arg,
                         flags := (if d_flags (data_lst s ! j) AND NCR_DATA_FLAG_EXPORTABLE c \<noteq> 0
                                   then arg_flags arg OR NCR_KEY_FLAG_EXPORTABLE c
                                   else arg_flags arg)\<rparr>
                  else (key_lst s ! i)\<lparr>type := arg_type arg, algorithm := arg_algorithm arg,
                         flags := (if d_flags (data_lst s ! j) AND NCR_DATA_FLAG_EXPORTABLE c \<noteq> 0
                                   then arg_flags arg OR NCR_KEY_FLAG_EXPORTABLE c
                                   else arg_flags arg),
                         key_id_size := arg_key_id_size arg,
                         key_id := (if 0 < arg_key_id_size arg
                                    then memcpy (key_id (key_lst s ! i)) (arg_key_id arg)
                                           (arg_key_id_size arg)
                                    else key_id (key_lst s ! i))\<rparr>)]\<rparr>))"
proof (cases "key_find (key_lst s) (arg_key arg)")
  case None
  then show ?thesis by (simp add: import_key_not_found)
next
  case (Some i)
  then have i: "i < length (key_lst s)" by (simp add: key_find_Some)
  with assms(1) have r: "1 \<le> refcnt (key_lst s ! i)" by simp
  show ?thesis
  proof (cases "ncr_data_item_get (data_lst s) (arg_data arg)")
    case None
    then show ?thesis
      using \<open>key_find (key_lst s) (arg_key arg) = Some i\<close>
      by (simp add: import_data_not_found [OF \<open>key_find (key_lst s) (arg_key arg) = Some i\<close> r])
  next
    case (Some j)
    note k = \<open>key_find (key_lst s) (arg_key arg) = Some i\<close>
    show ?thesis
      using assms(2)
      by (auto simp add: import_found [OF k r Some] k Some Let_def split: if_splits)
  qed
qed

lemma sample_generate_255_fails: "fst (ncr_key_generate sample_h sample_state gen_255) = Inl EINVAL"
proof -
  have h1: "key_find (key_lst sample_state) (gen_desc gen_255) = Some 0"
    by (simp add: gen_255_def sample_find)
  show ?thesis
    unfolding generate_found [OF h1 sample_refcnt] Let_def
    by (simp add: gen_255_def sample_h_def)
qed

text \<open>
  C2, as amended. In a registry whose linked items are live, a call of \<^verbatim>\<open>ncr_key_generate\<close> or
  \<^verbatim>\<open>ncr_key_import\<close> that fails changes nothing but fields of the item it addresses; no other
  item, no data buffer and no count of the limiter changes, and a call that does not find
  its key (or, for import, its data buffer) changes nothing at all. Of the addressed item
  \<^item> a generate that fails its classification check has replaced the type only;
  \<^item> a generate that fails its size check has replaced the type, the flags and the algorithm;
  \<^item> an import that fails for a type other than secret or for an oversize key id has
    replaced the type, the algorithm and the flags;
  \<^item> an import that fails for an oversize source buffer has replaced these and the key id
    with its length.

  The key material and its length are never changed by a failing call, and the key id and
  its length only in the last case.
\<close>

theorem failed_call_frame:
  assumes "\<forall>item \<in> set (key_lst s). 1 \<le> refcnt item"
  shows "(fst (ncr_key_generate c s gen) \<noteq> Inr () \<longrightarrow>
            snd (ncr_key_generate c s gen) =
              (case key_find (key_lst s) (gen_desc gen) of
                 None \<Rightarrow> s
               | Some i \<Rightarrow>
                   s\<lparr>key_lst := (key_lst s)[i :=
                     (if ncr_algorithm_to_key_type c (gen_algorithm gen) \<noteq> NCR_KEY_TYPE_SECRET c
                      then (key_lst s ! i)\<lparr>type := ncr_algorithm_to_key_type c (gen_algorithm gen)\<rparr>
                      else (key_lst s ! i)\<lparr>type := NCR_KEY_TYPE_SECRET c,
                             flags := gen_keyflags gen, algorithm := NCR_ALG_AES_CBC c\<rparr>)]\<rparr>) \<and>
            map stored_key (key_lst (snd (ncr_key_generate c s gen))) = map stored_key (key_lst s) \<and>
            map stored_key_id (key_lst (snd (ncr_key_generate c s gen))) =
              map stored_key_id (key_lst s)) \<and>
         (fst (ncr_key_import c s arg) \<noteq> Inr () \<longrightarrow>
            snd (ncr_key_import c s arg) =
              (case key_find (key_lst s) (arg_key arg) of
                 None \<Rightarrow> s
               | Some i \<Rightarrow>
                   (case ncr_data_item_get (data_lst s) (arg_data arg) of
                      None \<Rightarrow> s
                    | Some j \<Rightarrow>
                        s\<lparr>key_lst := (key_lst s)[i :=
                          (if arg_type arg \<noteq> NCR_KEY_TYPE_SECRET c \<or>
                              arg_key_id_size arg > MAX_KEY_ID_SIZE c
                           then (key_lst s ! i)\<lparr>type := arg_type arg,
                                  algorithm := arg_algorithm arg,
                                  flags := (if d_flags (data_lst s ! j) AND
                                               NCR_DATA_FLAG_EXPORTABLE c \<noteq> 0
                                            then arg_flags arg OR NCR_KEY_FLAG_EXPORTABLE c
                                            else arg_flags arg)\<rparr>
                           else (key_lst s ! i)\<lparr>type := arg_type arg,
                                  algorithm := arg_algorithm arg,
                                  flags := (if d_flags (data_lst s ! j) AND
                                               NCR_DATA_FLAG_EXPORTABLE c \<noteq> 0
                                            then arg_flags arg OR NCR_KEY_FLAG_EXPORTABLE c
                                            else arg_flags arg),
                                  key_id_size := arg_key_id_size arg,
                                  key_id := (if 0 < arg_key_id_size arg
                                             then memcpy (key_id (key_lst s ! i)) (arg_key_id arg)
                                                    (arg_key_id_size arg)
                                             else key_id (key_lst s ! i))\<rparr>)]\<rparr>)) \<and>
            map stored_key (key_lst (snd (ncr_key_import c s arg))) = map stored_key (key_lst s) \<and>
            (arg_type arg \<noteq> NCR_KEY_TYPE_SECRET c \<or> arg_key_id_size arg > MAX_KEY_ID_SIZE c \<longrightarrow>
               map stored_key_id (key_lst (snd (ncr_key_import c s arg))) =
                 map stored_key_id (key_lst s)))"
proof (intro conjI impI)
  assume g: "fst (ncr_key_generate c s gen) \<noteq> Inr ()"
  from generate_failure_state [OF assms g]
  show "snd (ncr_key_generate c s gen) =
      (case key_find (key_lst s) (gen_desc gen) of
         None \<Rightarrow> s
       | Some i \<Rightarrow>
           s\<lparr>key_lst := (key_lst s)[i :=
             (if ncr_algorithm_to_key_type c (gen_algorithm gen) \<noteq> NCR_KEY_TYPE_SECRET c
              then (key_lst s ! i)\<lparr>type := ncr_algorithm_to_key_type c (gen_algorithm gen)\<rparr>
              else (key_lst s ! i)\<lparr>type := NCR_KEY_TYPE_SECRET c,
                     flags := gen_keyflags gen, algorithm := NCR_ALG_AES_CBC c\<rparr>)]\<rparr>)" .
  from generate_failure_frame [OF assms g]
  show "map stored_key (key_lst (snd (ncr_key_generate c s gen))) = map stored_key (key_lst s)"
    and "map stored_key_id (key_lst (snd (ncr_key_generate c s gen))) =
         map stored_key_id (key_lst s)"
    by simp_all
next
  assume m: "fst (ncr_key_import c s arg) \<noteq> Inr ()"
  from import_failure_state [OF assms m]
  show "snd (ncr_key_import c s arg) =
      (case key_find (key_lst s) (arg_key arg) of
         None \<Rightarrow> s
       | Some i \<Rightarrow>
           (case ncr_data_item_get (data_lst s) (arg_data arg) of
              None \<Rightarrow> s
            | Some j \<Rightarrow>
                s\<lparr>key_lst := (key_lst s)[i :=
                  (if arg_type arg \<noteq> NCR_KEY_TYPE_SECRET c \<or>
                      arg_key_id_size arg > MAX_KEY_ID_SIZE c
                   then (key_lst s ! i)\<lparr>type := arg_type arg,
                          algorithm := arg_algorithm arg,
                          flags := (if d_flags (data_lst s ! j) AND
                                       NCR_DATA_FLAG_EXPORTABLE c \<noteq> 0
                                    then arg_flags arg OR NCR_KEY_FLAG_EXPORTABLE c
                                    else arg_flags arg)\<rparr>
                   else (key_lst s ! i)\<lparr>type := arg_type arg,
                          algorithm := arg_algorithm arg,
                          flags := (if d_flags (data_lst s ! j) AND
                                       NCR_DATA_FLAG_EXPORTABLE c \<noteq> 0
                                    then arg_flags arg OR NCR_KEY_FLAG_EXPORTABLE c
                                    else arg_flags arg),
                          key_id_size := arg_key_id_size arg,
                          key_id := (if 0 < arg_key_id_size arg
                                     then memcpy (key_id (key_lst s ! i)) (arg_key_id arg)
                                            (arg_key_id_size arg)
                                     else key_id (key_lst s ! i))\<rparr>)]\<rparr>))" .
  from import_failure_frame(1) [OF assms m]
  show "map stored_key (key_lst (snd (ncr_key_import c s arg))) = map stored_key (key_lst s)" .
  assume "arg_type arg \<noteq> NCR_KEY_TYPE_SECRET c \<or> arg_key_id_size arg > MAX_KEY_ID_SIZE c"
  from import_failure_frame(2) [OF assms m this]
  show "map stored_key_id (key_lst (snd (ncr_key_import c s arg))) =
        map stored_key_id (key_lst s)" .
qed


theorem failed_call_frame_witness:
  "list_all (\<lambda>item. 1 \<le> refcnt item) (key_lst (io_state 0 0)) \<and>
   material (key_lst (io_state 0 0) ! 0) = [1, 2, 3, 4] \<and>
   type (key_lst (io_state 0 0) ! 0) = 1 \<and>
   flags (key_lst (io_state 0 0) ! 0) = 0 \<and>
   algorithm (key_lst (io_state 0 0) ! 0) = 3 \<and>
   key_id_size (key_lst (io_state 0 0) ! 0) = 0 \<and>
   fst (ncr_key_generate sample_h (io_state 0 0) gen_255) \<noteq> Inr () \<and>
   snd (ncr_key_generate sample_h (io_state 0 0) gen_255) =
     (io_state 0 0)\<lparr>key_lst := [(key_lst (io_state 0 0) ! 0)\<lparr>flags := 1\<rparr>]\<rparr> \<and>
   fst (ncr_key_generate sample_h (io_state 0 0) gen_public) \<noteq> Inr () \<and>
   snd (ncr_key_generate sample_h (io_state 0 0) gen_public) =
     (io_state 0 0)\<lparr>key_lst := [(key_lst (io_state 0 0) ! 0)\<lparr>type := 2\<rparr>]\<rparr> \<and>
   fst (ncr_key_import sample_h (io_state 0 0) import_bad_type) \<noteq> Inr () \<and>
   snd (ncr_key_import sample_h (io_state 0 0) import_bad_type) =
     (io_state 0 0)\<lparr>key_lst :=
       [(key_lst (io_state 0 0) ! 0)\<lparr>type := 2, algorithm := 140, flags := 1\<rparr>]\<rparr> \<and>
   fst (ncr_key_import sample_h big_source_state (data_arg 1 4)) \<noteq> Inr () \<and>
   snd (ncr_key_import sample_h big_source_state (data_arg 1 4)) =
     big_source_state\<lparr>key_lst := [(key_lst (io_state 0 0) ! 0)\<lparr>key_id_size := 4\<rparr>]\<rparr> \<and>
   material (key_lst (snd (ncr_key_import sample_h big_source_state (data_arg 1 4))) ! 0) =
     [1, 2, 3, 4]"
proof -
  have inv: "\<forall>item \<in> set (key_lst (io_state 0 0)). 1 \<le> refcnt item"
    by (rule io_inv)
  have binv: "\<forall>item \<in> set (key_lst big_source_state). 1 \<le> refcnt item"
    using io_inv [of 0 0] by (simp add: big_source_state_def)
  have bref: "1 \<le> refcnt (key_lst big_source_state ! 0)"
    using io_refcnt [of 0 0] by (simp add: big_source_state_def)
  have k: "key_find (key_lst (io_state 0 0)) (gen_desc gen_255) = Some 0"
          "key_find (key_lst (io_state 0 0)) (gen_desc gen_public) = Some 0"
          "key_find (key_lst (io_state 0 0)) (arg_key import_bad_type) = Some 0"
          "key_find (key_lst big_source_state) (arg_key (data_arg 1 4)) = Some 0"
    by (simp_all add: gen_255_def gen_public_def import_bad_type_def data_arg_def io_find
        big_source_state_def)
  have d: "ncr_data_item_get (data_lst (io_state 0 0)) (arg_data import_bad_type) = Some 0"
          "ncr_data_item_get (data_lst big_source_state) (arg_data (data_arg 1 4)) = Some 0"
    by (simp_all add: import_bad_type_def data_arg_def io_data big_source_state_def)
  have old: "material (key_lst (io_state 0 0) ! 0) = [1, 2, 3, 4]"
    "type (key_lst (io_state 0 0) ! 0) = 1" "flags (key_lst (io_state 0 0) ! 0) = 0"
    "algorithm (key_lst (io_state 0 0) ! 0) = 3" "key_id_size (key_lst (io_state 0 0) ! 0) = 0"
    by (simp_all add: io_state_def material_def sample_key_def zero_key_def)
  have lst: "key_lst (io_state 0 0) = [key_lst (io_state 0 0) ! 0]"
    by (simp add: io_state_def)
  have blst: "key_lst big_source_state = [key_lst (io_state 0 0) ! 0]"
    by (simp add: big_source_state_def io_state_def)
  have kid: "key_id (key_lst (io_state 0 0) ! 0) = replicate 20 0"
    by (simp add: io_state_def sample_key_def zero_key_def sample_h_def)
  have f1: "fst (ncr_key_generate sample_h (io_state 0 0) gen_255) = Inl EINVAL"
    unfolding generate_found [OF k(1) io_refcnt] Let_def
    by (simp add: gen_255_def sample_h_def)
  have f2: "fst (ncr_key_generate sample_h (io_state 0 0) gen_public) = Inl EINVAL"
    unfolding generate_found [OF k(2) io_refcnt] Let_def
    by (simp add: gen_public_def sample_h_def)
  have f3: "fst (ncr_key_import sample_h (io_state 0 0) import_bad_type) = Inl EINVAL"
    unfolding import_found [OF k(3) io_refcnt d(1)] Let_def
    by (simp add: import_bad_type_def sample_h_def)
  have f4: "fst (ncr_key_import sample_h big_source_state (data_arg 1 4)) = Inl EINVAL"
    unfolding import_found [OF k(4) bref d(2)] Let_def
    by (simp add: data_arg_def sample_h_def big_source_state_def)
  have c1: "ncr_algorithm_to_key_type sample_h (gen_algorithm gen_255) = NCR_KEY_TYPE_SECRET sample_h"
    "NCR_KEY_TYPE_SECRET sample_h = 1" "gen_keyflags gen_255 = 1" "NCR_ALG_AES_CBC sample_h = 3"
    by (simp_all add: gen_255_def sample_h_def)
  have c2: "ncr_algorithm_to_key_type sample_h (gen_algorithm gen_public) = 2"
    by (simp add: gen_public_def sample_h_def)
  have c3: "arg_type import_bad_type = 2" "arg_algorithm import_bad_type = 140"
    "arg_flags import_bad_type = 1" "d_flags (data_lst (io_state 0 0) ! 0) = 0"
    by (simp_all add: import_bad_type_def io_state_def sample_data_def)
  have c4: "arg_type (data_arg 1 4) = 1" "arg_algorithm (data_arg 1 4) = 3"
    "arg_flags (data_arg 1 4) = 0" "d_flags (data_lst big_source_state ! 0) = 0"
    "arg_key_id_size (data_arg 1 4) = 4" "MAX_KEY_ID_SIZE sample_h = 20"
    "arg_key_id (data_arg 1 4) = replicate 20 0"
    by (simp_all add: data_arg_def big_source_state_def sample_h_def)
  note T1 = failed_call_frame [OF inv, of sample_h gen_255 import_bad_type]
  note T2 = failed_call_frame [OF inv, of sample_h gen_public import_bad_type]
  note T3 = failed_call_frame [OF binv, of sample_h gen_255 "data_arg 1 4"]
  have r1: "snd (ncr_key_generate sample_h (io_state 0 0) gen_255) =
     (io_state 0 0)\<lparr>key_lst := [(key_lst (io_state 0 0) ! 0)\<lparr>flags := 1\<rparr>]\<rparr>"
  proof -
    from T1 f1 have "snd (ncr_key_generate sample_h (io_state 0 0) gen_255) =
       (io_state 0 0)\<lparr>key_lst := (key_lst (io_state 0 0))[0 :=
          (key_lst (io_state 0 0) ! 0)\<lparr>type := 1, flags := 1, algorithm := 3\<rparr>]\<rparr>"
      by (simp add: k c1)
    also have "(key_lst (io_state 0 0) ! 0)\<lparr>type := 1, flags := 1, algorithm := 3\<rparr> =
               (key_lst (io_state 0 0) ! 0)\<lparr>flags := 1\<rparr>"
      by (simp add: io_state_def)
    also have "(key_lst (io_state 0 0))[0 := (key_lst (io_state 0 0) ! 0)\<lparr>flags := 1\<rparr>] =
               [(key_lst (io_state 0 0) ! 0)\<lparr>flags := 1\<rparr>]"
      by (subst lst) simp
    finally show ?thesis .
  qed
  have r2: "snd (ncr_key_generate sample_h (io_state 0 0) gen_public) =
     (io_state 0 0)\<lparr>key_lst := [(key_lst (io_state 0 0) ! 0)\<lparr>type := 2\<rparr>]\<rparr>"
  proof -
    from T2 f2 have "snd (ncr_key_generate sample_h (io_state 0 0) gen_public) =
       (io_state 0 0)\<lparr>key_lst := (key_lst (io_state 0 0))[0 :=
          (key_lst (io_state 0 0) ! 0)\<lparr>type := 2\<rparr>]\<rparr>"
      by (simp add: k c2 c1(2))
    also have "(key_lst (io_state 0 0))[0 := (key_lst (io_state 0 0) ! 0)\<lparr>type := 2\<rparr>] =
               [(key_lst (io_state 0 0) ! 0)\<lparr>type := 2\<rparr>]"
      by (subst lst) simp
    finally show ?thesis .
  qed
  have r3: "snd (ncr_key_import sample_h (io_state 0 0) import_bad_type) =
     (io_state 0 0)\<lparr>key_lst :=
       [(key_lst (io_state 0 0) ! 0)\<lparr>type := 2, algorithm := 140, flags := 1\<rparr>]\<rparr>"
  proof -
    from T1 f3 have "snd (ncr_key_import sample_h (io_state 0 0) import_bad_type) =
       (io_state 0 0)\<lparr>key_lst := (key_lst (io_state 0 0))[0 :=
          (key_lst (io_state 0 0) ! 0)\<lparr>type := 2, algorithm := 140, flags := 1\<rparr>]\<rparr>"
      by (simp add: k d c3 c1(2))
    also have "(key_lst (io_state 0 0))[0 :=
          (key_lst (io_state 0 0) ! 0)\<lparr>type := 2, algorithm := 140, flags := 1\<rparr>] =
          [(key_lst (io_state 0 0) ! 0)\<lparr>type := 2, algorithm := 140, flags := 1\<rparr>]"
      by (subst lst) simp
    finally show ?thesis .
  qed
  have r4: "snd (ncr_key_import sample_h big_source_state (data_arg 1 4)) =
     big_source_state\<lparr>key_lst := [(key_lst (io_state 0 0) ! 0)\<lparr>key_id_size := 4\<rparr>]\<rparr>"
  proof -
    from T3 f4 have "snd (ncr_key_import sample_h big_source_state (data_arg 1 4)) =
       big_source_state\<lparr>key_lst := (key_lst big_source_state)[0 :=
          (key_lst big_source_state ! 0)\<lparr>type := 1, algorithm := 3, flags := 0,
             key_id_size := 4,
             key_id := memcpy (key_id (key_lst big_source_state ! 0)) (replicate 20 0) 4\<rparr>]\<rparr>"
      by (simp add: k d c4 c1(2))
    also have "(key_lst big_source_state ! 0)\<lparr>type := 1, algorithm := 3, flags := 0,
             key_id_size := 4,
             key_id := memcpy (key_id (key_lst big_source_state ! 0)) (replicate 20 0) 4\<rparr> =
             (key_lst (io_state 0 0) ! 0)\<lparr>key_id_size := 4\<rparr>"
      by (simp add: blst) (simp add: io_state_def sample_key_def zero_key_def sample_h_def memcpy_def
          replicate_add [symmetric])
    also have "(key_lst big_source_state)[0 := (key_lst (io_state 0 0) ! 0)\<lparr>key_id_size := 4\<rparr>] =
               [(key_lst (io_state 0 0) ! 0)\<lparr>key_id_size := 4\<rparr>]"
      by (subst blst) simp
    finally show ?thesis .
  qed
  have m4: "material (key_lst (snd (ncr_key_import sample_h big_source_state (data_arg 1 4))) ! 0) =
     [1, 2, 3, 4]"
    using old(1) by (simp add: r4 material_def)
  from inv have "list_all (\<lambda>item. 1 \<le> refcnt item) (key_lst (io_state 0 0))"
    by (simp add: list_all_iff)
  with old f1 f2 f3 f4 r1 r2 r3 r4 m4 show ?thesis
    by simp
qed

text \<open>
  C2 as stated fails: generation with 255 bits on the sample registry fails its size check
  and has by then replaced the item's flags (0 before, 1 after).
\<close>

theorem failed_generate_writes_flags_counterexample:
  "fst (ncr_key_generate sample_h sample_state gen_255) = Inl EINVAL \<and>
   flags (key_lst sample_state ! 0) = 0 \<and>
   flags (key_lst (snd (ncr_key_generate sample_h sample_state gen_255)) ! 0) = 1"
proof -
  have h1: "key_find (key_lst sample_state) (gen_desc gen_255) = Some 0"
    by (simp add: gen_255_def sample_find)
  have "flags (key_lst (snd (ncr_key_generate sample_h sample_state gen_255)) ! 0) = 1"
    unfolding generate_found [OF h1 sample_refcnt] Let_def
    by (simp add: gen_255_def sample_h_def sample_state_def)
  moreover have "flags (key_lst sample_state ! 0) = 0"
    by (simp add: sample_state_def sample_key_def zero_key_def)
  ultimately show ?thesis using sample_generate_255_fails by simp
qed

subsection \<open>The functions without a public key subsystem\<close>

text \<open>
  C6, as amended. For every state and argument, \<^verbatim>\<open>ncr_key_generate_pair\<close>, \<^verbatim>\<open>ncr_key_derive\<close> and
  \<^verbatim>\<open>ncr_key_get_public\<close> fail with \<open>EINVAL\<close>, the code the other operations return for an
  invalid argument, and change nothing.
\<close>

theorem asymmetric_stubs_fail:
  "ncr_key_generate_pair s a = (Inl EINVAL, s) \<and>
   ncr_key_derive s b = (Inl EINVAL, s) \<and>
   ncr_key_get_public s d = (Inl EINVAL, s)"
  by (simp add: ncr_key_generate_pair_def ncr_key_derive_def ncr_key_get_public_def)

text \<open>
  C6 as stated fails: the three functions return the very code that \<^verbatim>\<open>ncr_key_generate\<close>
  returns for a bit count that is not a multiple of 8, so their failure is not told apart
  from an invalid argument.
\<close>

theorem asymmetric_stubs_code_counterexample:
  "fst (ncr_key_generate sample_h sample_state gen_255) = Inl EINVAL \<and>
   fst (ncr_key_generate_pair sample_state gen_255) =
     fst (ncr_key_generate sample_h sample_state gen_255) \<and>
   fst (ncr_key_derive sample_state gen_255) =
     fst (ncr_key_generate sample_h sample_state gen_255) \<and>
   fst (ncr_key_get_public sample_state gen_255) =
     fst (ncr_key_generate sample_h sample_state gen_255)"
  by (simp add: sample_generate_255_fails ncr_key_generate_pair_def ncr_key_derive_def
      ncr_key_get_public_def)

subsection \<open>The limiter's count\<close>

lemma init_kmalloc_failure:
  "ncr_limits_add_and_check (limits s) f = Inr lim \<Longrightarrow>
   ncr_key_init c f False s arg = (Inl ENOMEM, s\<lparr>limits := lim\<rparr>, arg)"
  by (simp add: ncr_key_init_def)

lemma init_deinit_count:
  assumes "ncr_key_init c f True s arg = (Inr (), s1, d)"
  shows "limits (snd (ncr_key_deinit s1 d)) = limits s"
    and "key_lst (snd (ncr_key_deinit s1 d)) = key_lst s"
proof -
  from assms obtain lim where
    lim: "ncr_limits_add_and_check (limits s) f = Inr lim"
    by (auto simp add: ncr_key_init_def split: sum.splits)
  then have l: "lim = (limits s)\<lparr>key_cnt := (key_cnt (limits s))(f := key_cnt (limits s) f + 1)\<rparr>"
    by (auto simp add: ncr_limits_add_and_check_def split: if_splits)
  from assms lim have s1: "s1 = s\<lparr>limits := lim, key_lst := (zero_key c)\<lparr>refcnt := 1,
      desc := ncr_key_get_new_desc (key_lst s), filp := f\<rparr> # key_lst s\<rparr>"
    and d: "d = ncr_key_get_new_desc (key_lst s)"
    by (auto simp add: ncr_key_init_def Let_def)
  show "limits (snd (ncr_key_deinit s1 d)) = limits s"
    by (simp add: ncr_key_deinit_def s1 d ncr_key_item_put_def ncr_limits_remove_def l)
  show "key_lst (snd (ncr_key_deinit s1 d)) = key_lst s"
    by (simp add: ncr_key_deinit_def s1 d ncr_key_item_put_def)
qed

text \<open>
  C3. On the empty sample registry, \<^verbatim>\<open>ncr_key_init\<close> for owner 7 with a failing \<^verbatim>\<open>kmalloc\<close>
  returns \<open>ENOMEM\<close>, links no item, and leaves the owner's count at 1; tearing the registry
  down afterwards still leaves it at 1. The slot is never given back.
\<close>

theorem init_kmalloc_failure_keeps_slot:
  "fst (ncr_key_init sample_h 7 False empty_state 0) = Inl ENOMEM \<and>
   key_lst (fst (snd (ncr_key_init sample_h 7 False empty_state 0))) = [] \<and>
   key_cnt (limits empty_state) 7 = 0 \<and>
   key_cnt (limits (fst (snd (ncr_key_init sample_h 7 False empty_state 0)))) 7 = 1 \<and>
   key_cnt (limits (ncr_key_list_deinit
     (fst (snd (ncr_key_init sample_h 7 False empty_state 0))))) 7 = 1"
  by (simp add: ncr_key_init_def ncr_limits_add_and_check_def empty_state_def
      ncr_key_list_deinit_def)

subsection \<open>Export and import\<close>

lemma take_memcpy: "n \<le> length src \<Longrightarrow> take n (memcpy dst src n) = take n src"
  by (simp add: memcpy_def)

text \<open>
  C7. For a live item of the secret type and a destination buffer that is found, \<^verbatim>\<open>ncr_key_export\<close>
  fails with \<open>EINVAL\<close> when the material is longer than the buffer's capacity, and otherwise
  succeeds and leaves the buffer's bytes and length equal to the key's material. For a live
  item of the public or private type it fails with \<open>EINVAL\<close>.
\<close>

theorem export_bound_check:
  assumes "key_find (key_lst s) (arg_key arg) = Some i"
      and "1 \<le> refcnt (key_lst s ! i)"
      and "NCR_KEY_TYPE_PUBLIC c \<noteq> NCR_KEY_TYPE_SECRET c"
      and "NCR_KEY_TYPE_PRIVATE c \<noteq> NCR_KEY_TYPE_SECRET c"
  shows "(type (key_lst s ! i) = NCR_KEY_TYPE_SECRET c \<and>
          ncr_data_item_get (data_lst s) (arg_data arg) = Some j \<and>
          secret_size (key_lst s ! i) > max_data_size (data_lst s ! j) \<longrightarrow>
            fst (ncr_key_export c s arg) = Inl EINVAL) \<and>
         (type (key_lst s ! i) = NCR_KEY_TYPE_SECRET c \<and>
          ncr_data_item_get (data_lst s) (arg_data arg) = Some j \<and>
          secret_size (key_lst s ! i) \<le> max_data_size (data_lst s ! j) \<and>
          secret_size (key_lst s ! i) \<le> length (secret_data (key_lst s ! i)) \<longrightarrow>
            fst (ncr_key_export c s arg) = Inr () \<and>
            bytes (data_lst (snd (ncr_key_export c s arg)) ! j) = material (key_lst s ! i) \<and>
            data_size (data_lst (snd (ncr_key_export c s arg)) ! j) =
              length (material (key_lst s ! i))) \<and>
         (type (key_lst s ! i) = NCR_KEY_TYPE_PUBLIC c \<or>
          type (key_lst s ! i) = NCR_KEY_TYPE_PRIVATE c \<longrightarrow>
            fst (ncr_key_export c s arg) = Inl EINVAL)"
proof (intro conjI impI)
  assume "type (key_lst s ! i) = NCR_KEY_TYPE_SECRET c \<and>
          ncr_data_item_get (data_lst s) (arg_data arg) = Some j \<and>
          secret_size (key_lst s ! i) > max_data_size (data_lst s ! j)"
  then show "fst (ncr_key_export c s arg) = Inl EINVAL"
    using assms(1,2) by (simp add: export_found Let_def)
next
  assume a: "type (key_lst s ! i) = NCR_KEY_TYPE_SECRET c \<and>
          ncr_data_item_get (data_lst s) (arg_data arg) = Some j \<and>
          secret_size (key_lst s ! i) \<le> max_data_size (data_lst s ! j) \<and>
          secret_size (key_lst s ! i) \<le> length (secret_data (key_lst s ! i))"
  then have j: "j < length (data_lst s)" by (auto dest: data_get_Some)
  from a assms(1,2) have e: "ncr_key_export c s arg =
      (Inr (), s\<lparr>data_lst := (data_lst s)[j := (data_lst s ! j)\<lparr>
          d_flags := (if flags (key_lst s ! i) AND NCR_KEY_FLAG_EXPORTABLE c \<noteq> 0
                      then NCR_DATA_FLAG_EXPORTABLE c else 0),
          data := (if 0 < secret_size (key_lst s ! i)
                   then memcpy (data (data_lst s ! j)) (secret_data (key_lst s ! i))
                          (secret_size (key_lst s ! i))
                   else data (data_lst s ! j)),
          data_size := secret_size (key_lst s ! i)\<rparr>]\<rparr>)"
    by (simp add: export_found Let_def)
  show "fst (ncr_key_export c s arg) = Inr ()" by (simp add: e)
  show "bytes (data_lst (snd (ncr_key_export c s arg)) ! j) = material (key_lst s ! i)"
    using a j by (simp add: e bytes_def material_def take_memcpy)
  show "data_size (data_lst (snd (ncr_key_export c s arg)) ! j) = length (material (key_lst s ! i))"
    using a j by (simp add: e material_def)
next
  assume t: "type (key_lst s ! i) = NCR_KEY_TYPE_PUBLIC c \<or>
             type (key_lst s ! i) = NCR_KEY_TYPE_PRIVATE c"
  with assms(3,4) have n: "type (key_lst s ! i) \<noteq> NCR_KEY_TYPE_SECRET c" by auto
  show "fst (ncr_key_export c s arg) = Inl EINVAL"
  proof (cases "ncr_data_item_get (data_lst s) (arg_data arg)")
    case None
    then show ?thesis using assms(1,2) by (simp add: export_data_not_found)
  next
    case (Some k)
    then show ?thesis using assms(1,2) n by (simp add: export_found Let_def)
  qed
qed

theorem export_bound_check_witness:
  "key_find (key_lst (io_state 1 0)) (arg_key (data_arg 1 2)) = Some 0 \<and>
   ncr_data_item_get (data_lst (io_state 1 0)) (arg_data (data_arg 1 2)) = Some 1 \<and>
   secret_size (key_lst (io_state 1 0) ! 0) > max_data_size (data_lst (io_state 1 0) ! 1) \<and>
   fst (ncr_key_export sample_h (io_state 1 0) (data_arg 1 2)) = Inl EINVAL \<and>
   ncr_data_item_get (data_lst (io_state 1 0)) (arg_data (data_arg 1 1)) = Some 0 \<and>
   secret_size (key_lst (io_state 1 0) ! 0) \<le> max_data_size (data_lst (io_state 1 0) ! 0) \<and>
   fst (ncr_key_export sample_h (io_state 1 0) (data_arg 1 1)) = Inr () \<and>
   bytes (data_lst (snd (ncr_key_export sample_h (io_state 1 0) (data_arg 1 1))) ! 0) = [1, 2, 3, 4] \<and>
   data_size (data_lst (snd (ncr_key_export sample_h (io_state 1 0) (data_arg 1 1))) ! 0) = 4 \<and>
   type (key_lst public_state ! 0) = NCR_KEY_TYPE_PUBLIC sample_h \<and>
   fst (ncr_key_export sample_h public_state (data_arg 1 1)) = Inl EINVAL"
proof -
  have c: "NCR_KEY_TYPE_PUBLIC sample_h \<noteq> NCR_KEY_TYPE_SECRET sample_h"
       "NCR_KEY_TYPE_PRIVATE sample_h \<noteq> NCR_KEY_TYPE_SECRET sample_h"
    by (simp_all add: sample_h_def)
  have k: "key_find (key_lst (io_state 1 0)) (arg_key (data_arg 1 2)) = Some 0"
          "key_find (key_lst (io_state 1 0)) (arg_key (data_arg 1 1)) = Some 0"
    by (simp_all add: data_arg_def io_find)
  have d: "ncr_data_item_get (data_lst (io_state 1 0)) (arg_data (data_arg 1 2)) = Some 1"
          "ncr_data_item_get (data_lst (io_state 1 0)) (arg_data (data_arg 1 1)) = Some 0"
    by (simp_all add: data_arg_def io_data)
  have v: "type (key_lst (io_state 1 0) ! 0) = NCR_KEY_TYPE_SECRET sample_h"
          "secret_size (key_lst (io_state 1 0) ! 0) = 4"
          "max_data_size (data_lst (io_state 1 0) ! 1) = 2"
          "max_data_size (data_lst (io_state 1 0) ! 0) = 16"
          "length (secret_data (key_lst (io_state 1 0) ! 0)) = 32"
          "material (key_lst (io_state 1 0) ! 0) = [1, 2, 3, 4]"
    by (simp_all add: io_state_def sample_h_def sample_data_def material_def)
  have pk: "key_find (key_lst public_state) (arg_key (data_arg 1 1)) = Some 0"
    by (simp add: public_state_def io_state_def data_arg_def sample_key_def zero_key_def)
  have pr: "1 \<le> refcnt (key_lst public_state ! 0)"
    by (simp add: public_state_def io_state_def sample_key_def zero_key_def)
  have pt: "type (key_lst public_state ! 0) = NCR_KEY_TYPE_PUBLIC sample_h"
    by (simp add: public_state_def io_state_def sample_h_def)
  show ?thesis
    using export_bound_check [OF k(1) io_refcnt c, of 1]
      export_bound_check [OF k(2) io_refcnt c, of 0]
      export_bound_check [OF pk pr c, of 0] k d v pt
    by simp
qed

text \<open>
  C4. For a live item of the secret type whose material fits the destination buffer,
  \<^verbatim>\<open>ncr_key_export\<close> succeeds and leaves the buffer's flags equal to
  \<open>NCR_DATA_FLAG_EXPORTABLE\<close> when the key has \<open>NCR_KEY_FLAG_EXPORTABLE\<close> set and to 0 otherwise,
  whatever the buffer's flags were: the buffer is exportable afterwards if and only if the
  key is.
\<close>

theorem export_exportable_flag:
  assumes "key_find (key_lst s) (arg_key arg) = Some i"
      and "1 \<le> refcnt (key_lst s ! i)"
      and "ncr_data_item_get (data_lst s) (arg_data arg) = Some j"
      and "type (key_lst s ! i) = NCR_KEY_TYPE_SECRET c"
      and "secret_size (key_lst s ! i) \<le> max_data_size (data_lst s ! j)"
      and "NCR_DATA_FLAG_EXPORTABLE c \<noteq> 0"
  shows "fst (ncr_key_export c s arg) = Inr () \<and>
         d_flags (data_lst (snd (ncr_key_export c s arg)) ! j) =
           (if flags (key_lst s ! i) AND NCR_KEY_FLAG_EXPORTABLE c \<noteq> 0
            then NCR_DATA_FLAG_EXPORTABLE c else 0) \<and>
         ((d_flags (data_lst (snd (ncr_key_export c s arg)) ! j) AND NCR_DATA_FLAG_EXPORTABLE c \<noteq> 0) =
          (flags (key_lst s ! i) AND NCR_KEY_FLAG_EXPORTABLE c \<noteq> 0))"
proof -
  from assms(3) have j: "j < length (data_lst s)" by (simp add: data_get_Some)
  have f: "d_flags (data_lst (snd (ncr_key_export c s arg)) ! j) =
           (if flags (key_lst s ! i) AND NCR_KEY_FLAG_EXPORTABLE c \<noteq> 0
            then NCR_DATA_FLAG_EXPORTABLE c else 0)"
    using assms(4,5) j by (simp add: export_found [OF assms(1-3)] Let_def)
  have "fst (ncr_key_export c s arg) = Inr ()"
    using assms(4,5) by (simp add: export_found [OF assms(1-3)] Let_def)
  moreover have "(d_flags (data_lst (snd (ncr_key_export c s arg)) ! j) AND
                  NCR_DATA_FLAG_EXPORTABLE c \<noteq> 0) =
                 (flags (key_lst s ! i) AND NCR_KEY_FLAG_EXPORTABLE c \<noteq> 0)"
    using assms(6) by (simp add: f)
  ultimately show ?thesis using f by simp
qed

theorem export_exportable_flag_witness:
  "key_find (key_lst (io_state 0 1)) (arg_key (data_arg 1 1)) = Some 0 \<and>
   ncr_data_item_get (data_lst (io_state 0 1)) (arg_data (data_arg 1 1)) = Some 0 \<and>
   NCR_DATA_FLAG_EXPORTABLE sample_h \<noteq> 0 \<and>
   d_flags (data_lst (io_state 0 1) ! 0) = 1 \<and>
   flags (key_lst (io_state 0 1) ! 0) = 0 \<and>
   fst (ncr_key_export sample_h (io_state 0 1) (data_arg 1 1)) = Inr () \<and>
   d_flags (data_lst (snd (ncr_key_export sample_h (io_state 0 1) (data_arg 1 1))) ! 0) = 0 \<and>
   d_flags (data_lst (io_state 1 0) ! 0) = 0 \<and>
   flags (key_lst (io_state 1 0) ! 0) = 1 \<and>
   fst (ncr_key_export sample_h (io_state 1 0) (data_arg 1 1)) = Inr () \<and>
   d_flags (data_lst (snd (ncr_key_export sample_h (io_state 1 0) (data_arg 1 1))) ! 0) = 1"
proof -
  have k: "key_find (key_lst (io_state kf df)) (arg_key (data_arg 1 1)) = Some 0" for kf df
    by (simp add: data_arg_def io_find)
  have d: "ncr_data_item_get (data_lst (io_state kf df)) (arg_data (data_arg 1 1)) = Some 0" for kf df
    by (simp add: data_arg_def io_data)
  have t: "type (key_lst (io_state kf df) ! 0) = NCR_KEY_TYPE_SECRET sample_h" for kf df
    by (simp add: io_state_def sample_h_def)
  have z: "secret_size (key_lst (io_state kf df) ! 0) \<le> max_data_size (data_lst (io_state kf df) ! 0)"
    for kf df
    by (simp add: io_state_def sample_data_def)
  have e: "NCR_DATA_FLAG_EXPORTABLE sample_h \<noteq> 0"
    by (simp add: sample_h_def)
  have v: "d_flags (data_lst (io_state kf df) ! 0) = df" "flags (key_lst (io_state kf df) ! 0) = kf"
    for kf df
    by (simp_all add: io_state_def sample_data_def)
  have x: "NCR_KEY_FLAG_EXPORTABLE sample_h = 1" "NCR_DATA_FLAG_EXPORTABLE sample_h = 1"
    by (simp_all add: sample_h_def)
  show ?thesis
    using export_exportable_flag [OF k io_refcnt d t z e, of 0 1]
      export_exportable_flag [OF k io_refcnt d t z e, of 1 0] k d e v x
    by simp
qed

text \<open>
  C5. Let \<open>B\<close> be the bytes of a source buffer, of length at most \<open>MAX_KEY_SIZE\<close>. Importing
  it into a live item with the secret type (and a key id of at most \<open>MAX_KEY_ID_SIZE\<close> bytes)
  succeeds, and exporting the item afterwards into a buffer of capacity at least the length
  of \<open>B\<close> succeeds and leaves that buffer's bytes equal to \<open>B\<close> and its length equal to the
  length of \<open>B\<close>.
\<close>

theorem import_export_identity:
  assumes "key_find (key_lst s) (arg_key imp) = Some i"
      and "1 \<le> refcnt (key_lst s ! i)"
      and "ncr_data_item_get (data_lst s) (arg_data imp) = Some j"
      and "data_size (data_lst s ! j) \<le> length (data (data_lst s ! j))"
      and "length (bytes (data_lst s ! j)) \<le> MAX_KEY_SIZE c"
      and "arg_type imp = NCR_KEY_TYPE_SECRET c"
      and "arg_key_id_size imp \<le> MAX_KEY_ID_SIZE c"
      and "arg_key exp = arg_key imp"
      and "ncr_data_item_get (data_lst s) (arg_data exp) = Some k"
      and "length (bytes (data_lst s ! j)) \<le> max_data_size (data_lst s ! k)"
  shows "fst (ncr_key_import c s imp) = Inr () \<and>
         fst (ncr_key_export c (snd (ncr_key_import c s imp)) exp) = Inr () \<and>
         bytes (data_lst (snd (ncr_key_export c (snd (ncr_key_import c s imp)) exp)) ! k) =
           bytes (data_lst s ! j) \<and>
         data_size (data_lst (snd (ncr_key_export c (snd (ncr_key_import c s imp)) exp)) ! k) =
           length (bytes (data_lst s ! j))"
proof -
  from assms(1) have i: "i < length (key_lst s)" by (simp add: key_find_Some)
  from assms(9) have k: "k < length (data_lst s)" by (simp add: data_get_Some)
  define n where "n = data_size (data_lst s ! j)"
  from assms(4) have len: "length (bytes (data_lst s ! j)) = n"
    by (simp add: bytes_def n_def)
  define s1 where "s1 = snd (ncr_key_import c s imp)"
  from assms(5,6,7) len obtain item where
    imp_ok: "ncr_key_import c s imp = (Inr (), s\<lparr>key_lst := (key_lst s)[i := item]\<rparr>)" and
    item: "desc item = desc (key_lst s ! i)" "refcnt item = refcnt (key_lst s ! i)"
      "type item = NCR_KEY_TYPE_SECRET c" "secret_size item = n"
      "secret_data item = memcpy (secret_data (key_lst s ! i)) (data (data_lst s ! j)) n"
    by (simp add: import_found [OF assms(1-3)] Let_def n_def)
  have s1: "s1 = s\<lparr>key_lst := (key_lst s)[i := item]\<rparr>"
    by (simp add: s1_def imp_ok)
  have f: "key_find (key_lst s1) (arg_key exp) = Some i"
    using assms(1,8) i item(1) by (simp add: s1 key_find_update)
  have r: "1 \<le> refcnt (key_lst s1 ! i)"
    using assms(2) i item(2) by (simp add: s1)
  have d: "ncr_data_item_get (data_lst s1) (arg_data exp) = Some k"
    using assms(9) by (simp add: s1)
  have fit: "n \<le> max_data_size (data_lst s ! k)"
    using assms(10) len by simp
  have src: "n \<le> length (secret_data item)"
    using assms(4) by (simp add: item(5) memcpy_def n_def)
  have b: "bytes (data_lst s ! j) = take n (data (data_lst s ! j))"
    by (simp add: bytes_def n_def)
  have mat: "take n (secret_data item) = take n (data (data_lst s ! j))"
    using assms(4) by (simp add: item(5) take_memcpy n_def)
  have exp_ok: "ncr_key_export c s1 exp =
      (Inr (), s1\<lparr>data_lst := (data_lst s)[k := (data_lst s ! k)\<lparr>
          d_flags := (if flags item AND NCR_KEY_FLAG_EXPORTABLE c \<noteq> 0
                      then NCR_DATA_FLAG_EXPORTABLE c else 0),
          data := (if 0 < n then memcpy (data (data_lst s ! k)) (secret_data item) n
                   else data (data_lst s ! k)),
          data_size := n\<rparr>]\<rparr>)"
    using i item(3,4) fit by (simp add: export_found [OF f r d] Let_def) (simp add: s1)
  have "bytes (data_lst (snd (ncr_key_export c s1 exp)) ! k) = take n (data (data_lst s ! j))"
    using k src mat by (simp add: exp_ok bytes_def take_memcpy)
  then have e2: "bytes (data_lst (snd (ncr_key_export c s1 exp)) ! k) = bytes (data_lst s ! j)"
    by (simp add: b)
  have e3: "data_size (data_lst (snd (ncr_key_export c s1 exp)) ! k) =
            length (bytes (data_lst s ! j))"
    using k by (simp add: exp_ok len)
  have e1: "fst (ncr_key_export c s1 exp) = Inr ()"
    by (simp add: exp_ok)
  have i1: "fst (ncr_key_import c s imp) = Inr ()"
    by (simp add: imp_ok)
  from i1 e1 e2 e3 show ?thesis
    unfolding s1_def by blast
qed

theorem import_export_identity_witness:
  "key_find (key_lst (io_state 1 0)) (arg_key (data_arg 1 3)) = Some 0 \<and>
   ncr_data_item_get (data_lst (io_state 1 0)) (arg_data (data_arg 1 3)) = Some 2 \<and>
   bytes (data_lst (io_state 1 0) ! 2) = [10, 20, 30] \<and>
   arg_type (data_arg 1 3) = NCR_KEY_TYPE_SECRET sample_h \<and>
   arg_key_id_size (data_arg 1 3) \<le> MAX_KEY_ID_SIZE sample_h \<and>
   ncr_data_item_get (data_lst (io_state 1 0)) (arg_data (data_arg 1 1)) = Some 0 \<and>
   fst (ncr_key_import sample_h (io_state 1 0) (data_arg 1 3)) = Inr () \<and>
   fst (ncr_key_export sample_h (snd (ncr_key_import sample_h (io_state 1 0) (data_arg 1 3)))
     (data_arg 1 1)) = Inr () \<and>
   bytes (data_lst (snd (ncr_key_export sample_h
     (snd (ncr_key_import sample_h (io_state 1 0) (data_arg 1 3))) (data_arg 1 1))) ! 0) =
     [10, 20, 30] \<and>
   data_size (data_lst (snd (ncr_key_export sample_h
     (snd (ncr_key_import sample_h (io_state 1 0) (data_arg 1 3))) (data_arg 1 1))) ! 0) = 3"
proof -
  have h1: "key_find (key_lst (io_state 1 0)) (arg_key (data_arg 1 3)) = Some 0"
    by (simp add: data_arg_def io_find)
  have h3: "ncr_data_item_get (data_lst (io_state 1 0)) (arg_data (data_arg 1 3)) = Some 2"
    by (simp add: data_arg_def io_data)
  have h4: "data_size (data_lst (io_state 1 0) ! 2) \<le> length (data (data_lst (io_state 1 0) ! 2))"
    by (simp add: io_state_def)
  have b: "bytes (data_lst (io_state 1 0) ! 2) = [10, 20, 30]"
    by (simp add: io_state_def bytes_def)
  have h5: "length (bytes (data_lst (io_state 1 0) ! 2)) \<le> MAX_KEY_SIZE sample_h"
    by (simp add: b sample_h_def)
  have h6: "arg_type (data_arg 1 3) = NCR_KEY_TYPE_SECRET sample_h"
    by (simp add: data_arg_def sample_h_def)
  have h7: "arg_key_id_size (data_arg 1 3) \<le> MAX_KEY_ID_SIZE sample_h"
    by (simp add: data_arg_def sample_h_def)
  have h8: "arg_key (data_arg 1 1) = arg_key (data_arg 1 3)"
    by (simp add: data_arg_def)
  have h9: "ncr_data_item_get (data_lst (io_state 1 0)) (arg_data (data_arg 1 1)) = Some 0"
    by (simp add: data_arg_def io_data)
  have h10: "length (bytes (data_lst (io_state 1 0) ! 2)) \<le> max_data_size (data_lst (io_state 1 0) ! 0)"
    by (simp add: b) (simp add: io_state_def sample_data_def)
  show ?thesis
    using import_export_identity [OF h1 io_refcnt h3 h4 h5 h6 h7 h8 h9 h10] h1 h3 h6 h7 h9 b
    by simp
qed

subsection \<open>Descriptors\<close>

lemma sint_max_int: "sint (max_int x y) = max (sint x) (sint y)"
  by (simp add: max_int_def max_def)

lemma max_desc_ge:
  "sint mx \<le> sint (max_desc mx lst) \<and> (\<forall>item \<in> set lst. sint (desc item) \<le> sint (max_desc mx lst))"
proof (induction lst arbitrary: mx)
  case Nil
  then show ?case by simp
next
  case (Cons a lst)
  from Cons.IH [of "max_int mx (desc a)"] show ?case
    by (auto simp add: sint_max_int)
qed

lemma max_desc_mem: "max_desc mx lst = mx \<or> max_desc mx lst \<in> desc ` set lst"
proof (induction lst arbitrary: mx)
  case Nil
  then show ?case by simp
next
  case (Cons a lst)
  from Cons.IH [of "max_int mx (desc a)"] show ?case
    by (auto simp add: max_int_def split: if_splits)
qed

lemma max_desc_Max: "sint (max_desc mx lst) = Max (insert (sint mx) (sint ` desc ` set lst))"
proof (rule sym, rule Max_eqI)
  show "finite (insert (sint mx) (sint ` desc ` set lst))" by simp
  show "y \<le> sint (max_desc mx lst)" if "y \<in> insert (sint mx) (sint ` desc ` set lst)" for y
    using that max_desc_ge [of mx lst] by auto
  show "sint (max_desc mx lst) \<in> insert (sint mx) (sint ` desc ` set lst)"
    using max_desc_mem [of mx lst] by auto
qed

lemma sint_plus_1:
  fixes x :: "32 word"
  assumes "sint x < 2147483647"
  shows "sint (x + 1) = sint x + 1"
proof -
  have "- (2 ^ 31) \<le> sint x" using sint_ge [of x] by simp
  with assms have "signed_take_bit 31 (sint x + 1) = sint x + 1"
    by (intro signed_take_bit_int_eq_self) simp_all
  then show ?thesis by (simp add: sint_word_add)
qed

lemma new_desc_sint:
  assumes "\<forall>item \<in> set lst. sint (desc item) < 2147483647"
  shows "sint (ncr_key_get_new_desc lst) = Max (insert 0 (sint ` desc ` set lst)) + 1"
proof -
  have "sint (max_desc 0 lst) < 2147483647"
    using max_desc_mem [of 0 lst] assms by auto
  then show ?thesis
    by (simp add: ncr_key_get_new_desc_def sint_plus_1 max_desc_Max)
qed

lemma new_desc_fresh:
  assumes "\<forall>item \<in> set lst. sint (desc item) < 2147483647"
  shows "ncr_key_get_new_desc lst \<notin> desc ` set lst" and "1 \<le> sint (ncr_key_get_new_desc lst)"
proof -
  have b: "sint (max_desc 0 lst) < 2147483647"
    using max_desc_mem [of 0 lst] assms by auto
  then have n: "sint (ncr_key_get_new_desc lst) = sint (max_desc 0 lst) + 1"
    by (simp add: ncr_key_get_new_desc_def sint_plus_1)
  show "ncr_key_get_new_desc lst \<notin> desc ` set lst"
  proof
    assume "ncr_key_get_new_desc lst \<in> desc ` set lst"
    then obtain item where "item \<in> set lst" "desc item = ncr_key_get_new_desc lst" by auto
    with max_desc_ge [of 0 lst] have "sint (ncr_key_get_new_desc lst) \<le> sint (max_desc 0 lst)"
      by auto
    with n show False by simp
  qed
  from max_desc_ge [of 0 lst] n show "1 \<le> sint (ncr_key_get_new_desc lst)" by simp
qed

lemma init_success:
  assumes "ncr_key_init c f ok s arg = (Inr (), s1, d)"
  shows "d = ncr_key_get_new_desc (key_lst s)"
    and "map desc (key_lst s1) = d # map desc (key_lst s)"
  using assms
  by (auto simp add: ncr_key_init_def Let_def split: sum.splits if_splits)

lemma init_failure:
  assumes "ncr_key_init c f ok s arg = (Inl e, s1, d)"
  shows "key_lst s1 = key_lst s"
  using assms
  by (auto simp add: ncr_key_init_def Let_def split: sum.splits if_splits)

lemma handles_ok_less: "handles_ok lst (Suc n) \<Longrightarrow> handles_ok lst n"
  by (auto simp add: handles_ok_def list_all_iff)

lemma handles_ok_new:
  assumes "handles_ok lst (Suc n)" and "map desc lst' = ncr_key_get_new_desc lst # map desc lst"
  shows "handles_ok lst' n"
proof -
  from assms(1) have b: "\<forall>item \<in> set lst. sint (desc item) < 2147483647"
    by (auto simp add: handles_ok_def list_all_iff)
  from assms(1) have old: "\<forall>item \<in> set lst. 1 \<le> sint (desc item) \<and> sint (desc item) + int n \<le> 2147483647"
    and n: "int n \<le> 2147483647"
    by (auto simp add: handles_ok_def list_all_iff)
  have "Max (insert 0 (sint ` desc ` set lst)) \<in> insert 0 (sint ` desc ` set lst)"
    by (rule Max_in) simp_all
  with assms(1) have "Max (insert 0 (sint ` desc ` set lst)) + 1 + int n \<le> 2147483647"
    by (auto simp add: handles_ok_def list_all_iff)
  then have new: "sint (ncr_key_get_new_desc lst) + int n \<le> 2147483647"
    by (simp add: new_desc_sint [OF b])
  have pos: "1 \<le> sint (ncr_key_get_new_desc lst)"
    by (rule new_desc_fresh [OF b])
  have "1 \<le> sint (desc item) \<and> sint (desc item) + int n \<le> 2147483647"
    if "item \<in> set lst'" for item
  proof -
    from that have "desc item \<in> set (map desc lst')" by simp
    then have "desc item = ncr_key_get_new_desc lst \<or> desc item \<in> desc ` set lst"
      by (simp add: assms(2))
    then show ?thesis
    proof
      assume "desc item = ncr_key_get_new_desc lst"
      with new pos show ?thesis by simp
    next
      assume "desc item \<in> desc ` set lst"
      then obtain item0 where "item0 \<in> set lst" "desc item = desc item0" by auto
      with old show ?thesis by simp
    qed
  qed
  with n show ?thesis
    by (simp add: handles_ok_def list_all_iff)
qed

lemma init_calls_distinct:
  assumes "handles_ok (key_lst s) (length oks)" and "distinct (map desc (key_lst s))"
  shows "map desc (key_lst (snd (init_calls c f oks s))) =
           rev (fst (init_calls c f oks s)) @ map desc (key_lst s) \<and>
         distinct (fst (init_calls c f oks s) @ map desc (key_lst s))"
  using assms
proof (induction oks arbitrary: s)
  case Nil
  then show ?case by simp
next
  case (Cons ok oks)
  obtain r s1 d where r: "ncr_key_init c f ok s 0 = (r, s1, d)"
    by (cases "ncr_key_init c f ok s 0") auto
  from Cons.prems(1) have less: "handles_ok (key_lst s) (length oks)"
    by (simp add: handles_ok_less)
  show ?case
  proof (cases r)
    case (Inl e)
    with r have same: "key_lst s1 = key_lst s" by (simp add: init_failure)
    from less Cons.prems(2) have "handles_ok (key_lst s1) (length oks)"
      and "distinct (map desc (key_lst s1))"
      by (simp_all add: same)
    from Cons.IH [OF this] show ?thesis
      by (simp add: r Inl same)
  next
    case (Inr u)
    with r have i: "ncr_key_init c f ok s 0 = (Inr (), s1, d)" by simp
    note d = init_success [OF i]
    from Cons.prems(1) have b: "\<forall>item \<in> set (key_lst s). sint (desc item) < 2147483647"
      by (auto simp add: handles_ok_def list_all_iff)
    have ok1: "handles_ok (key_lst s1) (length oks)"
      using Cons.prems(1) d by (auto intro: handles_ok_new)
    have dist: "distinct (map desc (key_lst s1))"
      using Cons.prems(2) new_desc_fresh(1) [OF b] by (simp add: d)
    obtain ds s2 where c: "init_calls c f oks s1 = (ds, s2)"
      by (cases "init_calls c f oks s1") auto
    from Cons.IH [OF ok1 dist] have
      "map desc (key_lst s2) = rev ds @ d # map desc (key_lst s)" and
      "distinct (ds @ d # map desc (key_lst s))"
      by (simp_all add: c d(2))
    then show ?thesis
      by (auto simp add: i c)
  qed
qed

text \<open>
  C9, as amended. In a registry whose descriptors are positive and below \<^verbatim>\<open>INT_MAX\<close>, a
  successful \<^verbatim>\<open>ncr_key_init\<close> returns and links the descriptor 1 when the registry is empty and
  the greatest descriptor plus 1 otherwise, which no linked item has. If moreover the
  descriptors are distinct and leave room for \<open>N\<close> more below \<^verbatim>\<open>INT_MAX\<close>, then after \<open>N\<close> calls
  the descriptors the successful calls returned, together with those linked before, are
  pairwise distinct, and they are the descriptors of the linked items.
\<close>

theorem init_fresh_handles:
  assumes "handles_ok (key_lst s) (Suc (length oks))"
  shows "(ncr_key_init c f ok s arg = (Inr (), s1, d) \<longrightarrow>
            sint d = (if key_lst s = [] then 1 else Max (sint ` desc ` set (key_lst s)) + 1) \<and>
            d \<notin> desc ` set (key_lst s) \<and>
            map desc (key_lst s1) = d # map desc (key_lst s)) \<and>
         (distinct (map desc (key_lst s)) \<longrightarrow>
            distinct (fst (init_calls c f oks s) @ map desc (key_lst s)) \<and>
            map desc (key_lst (snd (init_calls c f oks s))) =
              rev (fst (init_calls c f oks s)) @ map desc (key_lst s))"
proof (intro conjI impI)
  from assms have b: "\<forall>item \<in> set (key_lst s). sint (desc item) < 2147483647"
    by (auto simp add: handles_ok_def list_all_iff)
  from assms have p: "\<forall>item \<in> set (key_lst s). 1 \<le> sint (desc item)"
    by (auto simp add: handles_ok_def list_all_iff)
  assume i: "ncr_key_init c f ok s arg = (Inr (), s1, d)"
  note d = init_success [OF i]
  show "map desc (key_lst s1) = d # map desc (key_lst s)" by (rule d(2))
  show "d \<notin> desc ` set (key_lst s)" using new_desc_fresh(1) [OF b] by (simp add: d(1))
  show "sint d = (if key_lst s = [] then 1 else Max (sint ` desc ` set (key_lst s)) + 1)"
  proof (cases "key_lst s = []")
    case True
    then show ?thesis by (simp add: d(1) ncr_key_get_new_desc_def)
  next
    case False
    then have ne: "sint ` desc ` set (key_lst s) \<noteq> {}" by simp
    have "0 \<le> Max (sint ` desc ` set (key_lst s))"
    proof -
      from False obtain item where m: "item \<in> set (key_lst s)" by (cases "key_lst s") auto
      with p have "1 \<le> sint (desc item)" by simp
      moreover have "sint (desc item) \<le> Max (sint ` desc ` set (key_lst s))"
        using m by (intro Max_ge) auto
      ultimately show ?thesis by simp
    qed
    then have "Max (insert 0 (sint ` desc ` set (key_lst s))) = Max (sint ` desc ` set (key_lst s))"
      using ne by (simp add: max_def)
    with False show ?thesis by (simp add: d(1) new_desc_sint [OF b])
  qed
next
  assume dist: "distinct (map desc (key_lst s))"
  from assms have ok: "handles_ok (key_lst s) (length oks)" by (rule handles_ok_less)
  from init_calls_distinct [OF ok dist, of c f]
  show "map desc (key_lst (snd (init_calls c f oks s))) =
        rev (fst (init_calls c f oks s)) @ map desc (key_lst s)"
    and "distinct (fst (init_calls c f oks s) @ map desc (key_lst s))"
    by blast+
qed

lemma sample_init_ok: "fst (ncr_key_init sample_h 7 True sample_state 0) = Inr ()"
  by (simp add: ncr_key_init_def ncr_limits_add_and_check_def Let_def sample_state_def)

theorem init_fresh_handles_witness:
  "handles_ok (key_lst sample_state) 3 \<and>
   fst (ncr_key_init sample_h 7 True sample_state 0) = Inr () \<and>
   sint (snd (snd (ncr_key_init sample_h 7 True sample_state 0))) = 2 \<and>
   snd (snd (ncr_key_init sample_h 7 True sample_state 0)) \<notin> desc ` set (key_lst sample_state) \<and>
   distinct (map desc (key_lst sample_state)) \<and>
   distinct (fst (init_calls sample_h 7 [True, True] sample_state) @
     map desc (key_lst sample_state)) \<and>
   map desc (key_lst (snd (init_calls sample_h 7 [True, True] sample_state))) =
     rev (fst (init_calls sample_h 7 [True, True] sample_state)) @ map desc (key_lst sample_state)"
proof -
  have h: "handles_ok (key_lst sample_state) (Suc (length [True, True]))"
    by (simp add: handles_ok_def sample_state_def sample_key_def zero_key_def)
  have e: "ncr_key_init sample_h 7 True sample_state 0 =
             (Inr (), fst (snd (ncr_key_init sample_h 7 True sample_state 0)),
              snd (snd (ncr_key_init sample_h 7 True sample_state 0)))"
    using sample_init_ok by (simp add: prod_eq_iff)
  have d: "distinct (map desc (key_lst sample_state))"
    by (simp add: sample_state_def)
  have m: "Max (sint ` desc ` set (key_lst sample_state)) = 1" "key_lst sample_state \<noteq> []"
    by (simp_all add: sample_state_def sample_key_def zero_key_def)
  have h3: "handles_ok (key_lst sample_state) 3"
    using h by (simp add: numeral_3_eq_3)
  from init_fresh_handles [OF h, of sample_h 7 True 0
      "fst (snd (ncr_key_init sample_h 7 True sample_state 0))"
      "snd (snd (ncr_key_init sample_h 7 True sample_state 0))"] e d m
  have "sint (snd (snd (ncr_key_init sample_h 7 True sample_state 0))) = 2"
    and "snd (snd (ncr_key_init sample_h 7 True sample_state 0)) \<notin> desc ` set (key_lst sample_state)"
    and "distinct (fst (init_calls sample_h 7 [True, True] sample_state) @
           map desc (key_lst sample_state))"
    and "map desc (key_lst (snd (init_calls sample_h 7 [True, True] sample_state))) =
           rev (fst (init_calls sample_h 7 [True, True] sample_state)) @
           map desc (key_lst sample_state)"
    by simp_all
  with h3 sample_init_ok d show ?thesis by blast
qed

text \<open>
  C9 as stated fails where the greatest descriptor is \<^verbatim>\<open>INT_MAX\<close>: \<open>mx++\<close> wraps around to
  \<^verbatim>\<open>INT_MIN\<close>, and since that is below every other descriptor the next call computes the same
  value again. Two calls against the registry holding descriptor 2147483647 both return
  -2147483648, and the list then links two items with that descriptor.
\<close>

theorem init_int_max_counterexample:
  "map sint (fst (init_calls sample_h 7 [True, True] int_max_state)) =
     [- 2147483648, - 2147483648] \<and>
   map (sint \<circ> desc) (key_lst (snd (init_calls sample_h 7 [True, True] int_max_state))) =
     [- 2147483648, - 2147483648, 2147483647] \<and>
   \<not> distinct (fst (init_calls sample_h 7 [True, True] int_max_state))"
  by (simp add: ncr_key_init_def ncr_limits_add_and_check_def Let_def ncr_key_get_new_desc_def
      int_max_state_def sample_state_def sample_key_def zero_key_def max_int_def)

subsection \<open>Live items stay live\<close>

text \<open>
  The hypothesis of the statements above, that a linked item has \<open>refcnt \<ge> 1\<close>, holds in the
  empty registry and is kept by every function of the file: each borrows with one get and
  releases with one put, \<^verbatim>\<open>ncr_key_init\<close> links an item with count 1, and \<^verbatim>\<open>ncr_key_deinit\<close> unlinks
  the item it puts.
\<close>

lemma live_update:
  assumes "\<forall>item \<in> set lst. 1 \<le> refcnt item" and "1 \<le> refcnt x"
  shows "\<forall>item \<in> set (lst[i := x]). 1 \<le> refcnt item"
  using assms set_update_subset_insert [of lst i x] by auto

lemma live_init:
  assumes "\<forall>item \<in> set (key_lst s). 1 \<le> refcnt item"
  shows "\<forall>item \<in> set (key_lst (fst (snd (ncr_key_init c f ok s arg)))). 1 \<le> refcnt item"
  using assms
  by (auto simp add: ncr_key_init_def Let_def zero_key_def split: sum.splits)

lemma live_deinit:
  assumes "\<forall>item \<in> set (key_lst s). 1 \<le> refcnt item"
  shows "\<forall>item \<in> set (key_lst (snd (ncr_key_deinit s arg))). 1 \<le> refcnt item"
proof (cases "key_find (key_lst s) arg")
  case None
  then show ?thesis using assms by (simp add: ncr_key_deinit_def)
next
  case (Some i)
  have "set (take i (key_lst s) @ drop (Suc i) (key_lst s)) \<subseteq> set (key_lst s)"
    using set_take_subset [of i "key_lst s"] set_drop_subset [of "Suc i" "key_lst s"] by auto
  then show ?thesis
    using assms Some by (auto simp add: ncr_key_deinit_def Let_def split: prod.splits)
qed

lemma live_generate:
  assumes "\<forall>item \<in> set (key_lst s). 1 \<le> refcnt item"
  shows "\<forall>item \<in> set (key_lst (snd (ncr_key_generate c s gen))). 1 \<le> refcnt item"
proof (cases "key_find (key_lst s) (gen_desc gen)")
  case None
  then show ?thesis using assms by (simp add: generate_not_found)
next
  case (Some i)
  then have i: "i < length (key_lst s)" by (simp add: key_find_Some)
  with assms have r: "1 \<le> refcnt (key_lst s ! i)" by simp
  show ?thesis
    using r by (auto simp add: generate_found [OF Some r] Let_def intro!: live_update [OF assms])
qed

lemma live_import:
  assumes "\<forall>item \<in> set (key_lst s). 1 \<le> refcnt item"
  shows "\<forall>item \<in> set (key_lst (snd (ncr_key_import c s arg))). 1 \<le> refcnt item"
proof (cases "key_find (key_lst s) (arg_key arg)")
  case None
  then show ?thesis using assms by (simp add: import_key_not_found)
next
  case (Some i)
  then have i: "i < length (key_lst s)" by (simp add: key_find_Some)
  with assms have r: "1 \<le> refcnt (key_lst s ! i)" by simp
  show ?thesis
  proof (cases "ncr_data_item_get (data_lst s) (arg_data arg)")
    case None
    then show ?thesis using assms by (simp add: import_data_not_found [OF Some r])
  next
    case (Some j)
    show ?thesis
      using r
      by (auto simp add: import_found [OF \<open>key_find (key_lst s) (arg_key arg) = Some i\<close> r Some]
          Let_def intro!: live_update [OF assms])
  qed
qed

lemma live_export:
  assumes "\<forall>item \<in> set (key_lst s). 1 \<le> refcnt item"
  shows "key_lst (snd (ncr_key_export c s arg)) = key_lst s"
proof (cases "key_find (key_lst s) (arg_key arg)")
  case None
  then show ?thesis by (simp add: ncr_key_export_def ncr_key_item_get_def)
next
  case (Some i)
  then have i: "i < length (key_lst s)" by (simp add: key_find_Some)
  with assms have r: "1 \<le> refcnt (key_lst s ! i)" by simp
  show ?thesis
  proof (cases "ncr_data_item_get (data_lst s) (arg_data arg)")
    case None
    then show ?thesis by (simp add: export_data_not_found [OF Some r])
  next
    case (Some j)
    show ?thesis
      by (simp add: export_found [OF \<open>key_find (key_lst s) (arg_key arg) = Some i\<close> r Some] Let_def)
  qed
qed

lemma live_info:
  assumes "\<forall>item \<in> set (key_lst s). 1 \<le> refcnt item"
  shows "snd (snd (ncr_key_info s info)) = s"
proof (cases "key_find (key_lst s) (info_key info)")
  case None
  then show ?thesis by (simp add: ncr_key_info_def ncr_key_item_get_def)
next
  case (Some i)
  then have i: "i < length (key_lst s)" by (simp add: key_find_Some)
  with assms have r: "1 \<le> refcnt (key_lst s ! i)" by simp
  show ?thesis by (simp add: info_found [OF Some r])
qed

end
